theory Spec2Isabelle
  imports Complex_Main "HOL-Library.Sublist" "HOL-Library.Char_ord" "HOL-Library.List_Lexorder"
begin

section \<open>Python values, strings and dictionaries\<close>

text \<open>
  The repository is Python. Parameter bags, filter sets and plan steps are JSON-like
  values: they come from a JSON plan or from dict literals of the rule-based planner.
  A dict is an association list in insertion order (Python dicts iterate in insertion
  order) with distinct keys; keys are strings.

  A \<open>string\<close> is a list of 8-bit characters; a character is read as the Unicode
  code point of the same number, so the model covers texts in the Latin-1 range.
  A finite float is the real number it denotes and float arithmetic rounds, as the
  section on floating point says; NaN and the infinities are written out where the
  code can produce them.
\<close>

datatype pyval =
    PNone
  | PBool bool
  | PInt int
  | PFloat real
  | PNaN
  | PStr string
  | PList "pyval list"
  | PDict "(string \<times> pyval) list"

type_synonym pydict = "(string \<times> pyval) list"

text \<open>\<open>sep.join(xs)\<close>\<close>

fun join :: "string \<Rightarrow> string list \<Rightarrow> string" where
  "join sep [] = []"
| "join sep [x] = x"
| "join sep (x # y # ys) = x @ sep @ join sep (y # ys)"

text \<open>\<open>xs.index(x)\<close>: the first position of \<open>x\<close>, or ValueError (\<open>None\<close>).\<close>

fun list_index :: "'a list \<Rightarrow> 'a \<Rightarrow> nat option" where
  "list_index [] x = None"
| "list_index (y # ys) x = (if y = x then Some 0 else map_option Suc (list_index ys x))"

text \<open>
  An f-string SQL template is kept as the name of the function that holds the template
  and the interpolated strings in the order of the holes; the fixed text between the
  holes is constant per template. \<open>strip()\<close> only touches the fixed text at both ends.
\<close>

datatype sql_text = Sql_literal string | Sql_template string "string list"

section \<open>Floating point\<close>

text \<open>
  SQLite REAL values, Python floats and numpy \<open>float64\<close> values are IEEE 754 binary64
  numbers. Every arithmetic operation returns the float nearest to the exact result, a
  tie going to the neighbour with the even significand: \<open>fl x\<close> is that float. The
  significand has 53 bits, so the floats with the exponent \<open>e\<close> of \<open>x\<close> are the
  multiples of \<open>2 ^ (e - 52)\<close>. The exponent range is not bounded: overflow to an
  infinity and underflow to zero or to a subnormal number are left out.
\<close>

definition round_half_even :: "real \<Rightarrow> int" where
  "round_half_even y =
     (let f = \<lfloor>y\<rfloor>; d = y - of_int f
      in if d < 1 / 2 then f else if d > 1 / 2 then f + 1
         else if even f then f else f + 1)"

definition fl :: "real \<Rightarrow> real" where
  "fl x =
     (if x = 0 then 0
      else (let e = \<lfloor>log 2 \<bar>x\<bar>\<rfloor>; u = 2 powr (real_of_int e - 52)
            in real_of_int (round_half_even (x / u)) * u))"

text \<open>The operators \<open>+\<close>, \<open>-\<close>, \<open>*\<close>, \<open>/\<close> on finite floats, the divisor not being zero.\<close>

definition fadd :: "real \<Rightarrow> real \<Rightarrow> real" where
  "fadd x y = fl (x + y)"

definition fsub :: "real \<Rightarrow> real \<Rightarrow> real" where
  "fsub x y = fl (x - y)"

definition fmul :: "real \<Rightarrow> real \<Rightarrow> real" where
  "fmul x y = fl (x * y)"

definition fdiv :: "real \<Rightarrow> real \<Rightarrow> real" where
  "fdiv x y = fl (x / y)"

text \<open>
  \<open>round(x, nd)\<close> on a Python float is correctly rounded: the decimal with \<open>nd\<close>
  digits nearest to the exact value of \<open>x\<close>, a tie going to the even digit, read back
  as the nearest float.
\<close>

definition py_round :: "nat \<Rightarrow> real \<Rightarrow> real" where
  "py_round nd x = fl (real_of_int (round_half_even (x * 10 ^ nd)) / 10 ^ nd)"

text \<open>
  \<open>Series.round(nd)\<close>, and \<open>round(x, nd)\<close> on a numpy \<open>float64\<close>, take three float
  steps: multiply by \<open>10 ^ nd\<close>, round to the nearest integer (\<open>rint\<close>, ties to
  even), divide by \<open>10 ^ nd\<close>.
\<close>

definition np_round :: "nat \<Rightarrow> real \<Rightarrow> real" where
  "np_round nd x = fdiv (real_of_int (round_half_even (fmul x (10 ^ nd)))) (10 ^ nd)"

section \<open>Dimension Navigator (backend/agents/dimension\_navigator.py)\<close>

record hierarchy_def =
  levels :: "string list"
  labels :: "string list"
  columns :: "string list"

definition time_hierarchy :: hierarchy_def where
  "time_hierarchy =
     \<lparr>levels = [''year'', ''quarter'', ''month''],
      labels = [''Year'', ''Quarter'', ''Month''],
      columns = [''d.year'', ''d.quarter'', ''d.month_name'']\<rparr>"

definition geography_hierarchy :: hierarchy_def where
  "geography_hierarchy =
     \<lparr>levels = [''region'', ''country''],
      labels = [''Region'', ''Country''],
      columns = [''g.region'', ''g.country'']\<rparr>"

definition product_hierarchy :: hierarchy_def where
  "product_hierarchy =
     \<lparr>levels = [''category'', ''subcategory''],
      labels = [''Category'', ''Subcategory''],
      columns = [''p.category'', ''p.subcategory'']\<rparr>"

definition HIERARCHIES :: "(string \<times> hierarchy_def) list" where
  "HIERARCHIES =
     [(''time'', time_hierarchy),
      (''geography'', geography_hierarchy),
      (''product'', product_hierarchy)]"

text \<open>The \<open>col_map\<close> literal of \<open>_build_filter_clause\<close> and of \<open>_group_by\<close>.\<close>

definition nav_col_map :: "(string \<times> string) list" where
  "nav_col_map =
     [(''year'', ''d.year''), (''quarter'', ''d.quarter''), (''month'', ''d.month_name''),
      (''region'', ''g.region''), (''country'', ''g.country''),
      (''category'', ''p.category''), (''subcategory'', ''p.subcategory''),
      (''customer_segment'', ''c.customer_segment'')]"

text \<open>\<open>",".join("?" * n)\<close>\<close>

definition placeholders :: "nat \<Rightarrow> string" where
  "placeholders n = join '','' (replicate n ''?'')"

text \<open>
  \<open>_build_filter_clause\<close>: the loop over \<open>filters.items()\<close> appends to the two
  lists \<open>conditions\<close> and \<open>params\<close>; a key outside \<open>col_map\<close> is skipped.
  There are two cases for the value: a list, and everything else.
\<close>

fun nav_filter_loop :: "pydict \<Rightarrow> string list \<Rightarrow> pyval list \<Rightarrow> string list \<times> pyval list" where
  "nav_filter_loop [] conditions params = (conditions, params)"
| "nav_filter_loop ((key, val) # rest) conditions params =
     (case map_of nav_col_map key of
        None \<Rightarrow> nav_filter_loop rest conditions params
      | Some col \<Rightarrow>
          (case val of
             PList vs \<Rightarrow>
               nav_filter_loop rest
                 (conditions @ [col @ '' IN ('' @ placeholders (length vs) @ '')''])
                 (params @ vs)
           | _ \<Rightarrow>
               nav_filter_loop rest (conditions @ [col @ '' = ?'']) (params @ [val])))"

definition where_of :: "string list \<Rightarrow> string" where
  "where_of conditions =
     (if conditions \<noteq> [] then ''WHERE '' @ join '' AND '' conditions else [])"

definition build_filter_clause :: "pydict \<Rightarrow> string \<times> pyval list" where
  "build_filter_clause filters =
     (case nav_filter_loop filters [] [] of
        (conditions, params) \<Rightarrow> (where_of conditions, params))"

text \<open>
  \<open>_base_query\<close>: the template has three holes, \<open>select_cols\<close>, \<open>where\<close> and
  \<open>select_cols\<close> again (GROUP BY).
\<close>

definition base_query :: "string list \<Rightarrow> string \<Rightarrow> pyval list \<Rightarrow> sql_text \<times> pyval list" where
  "base_query group_cols where_clause params =
     (let select_cols = join '', '' group_cols
      in (Sql_template ''_base_query'' [select_cols, where_clause, select_cols], params))"

text \<open>
  The parameter bag of \<open>_drill_down\<close> and \<open>_roll_up\<close>, with the types of the
  docstring; \<open>None\<close> is a key that is absent from the dict.
\<close>

record nav_params =
  hierarchy :: "string option"
  to_level :: "string option"
  nav_filters :: "pydict option"

text \<open>\<open>HIERARCHIES.get(hierarchy, HIERARCHIES["time"])\<close> after \<open>params.get("hierarchy", "time")\<close>\<close>

definition lookup_hierarchy :: "string option \<Rightarrow> hierarchy_def" where
  "lookup_hierarchy hopt =
     (let hierarchy = (case hopt of None \<Rightarrow> ''time'' | Some hn \<Rightarrow> hn)
      in case map_of HIERARCHIES hierarchy of
           Some h \<Rightarrow> h
         | None \<Rightarrow> time_hierarchy)"

text \<open>
  \<open>_drill_down\<close> up to the call of \<open>_base_query\<close>: the resolved index, the grouping
  columns and the query. What follows in the source sends the query to storage and
  words the summary.
\<close>

definition drill_down_idx :: "nav_params \<Rightarrow> nat" where
  "drill_down_idx p =
     (let h = lookup_hierarchy (hierarchy p);
          lv = (case to_level p of None \<Rightarrow> last (levels h) | Some l \<Rightarrow> l)
      in case list_index (levels h) lv of
           Some i \<Rightarrow> i
         | None \<Rightarrow> length (levels h) - 1)"

definition drill_down_group_cols :: "nav_params \<Rightarrow> string list" where
  "drill_down_group_cols p =
     take (drill_down_idx p + 1) (columns (lookup_hierarchy (hierarchy p)))"

definition drill_down_query :: "nav_params \<Rightarrow> sql_text \<times> pyval list" where
  "drill_down_query p =
     (let filters = (case nav_filters p of None \<Rightarrow> [] | Some f \<Rightarrow> f)
      in case build_filter_clause filters of
           (where_clause, sql_params) \<Rightarrow>
             base_query (drill_down_group_cols p) where_clause sql_params)"

definition roll_up_idx :: "nav_params \<Rightarrow> nat" where
  "roll_up_idx p =
     (let h = lookup_hierarchy (hierarchy p);
          lv = (case to_level p of None \<Rightarrow> hd (levels h) | Some l \<Rightarrow> l)
      in case list_index (levels h) lv of
           Some i \<Rightarrow> i
         | None \<Rightarrow> 0)"

definition roll_up_group_cols :: "nav_params \<Rightarrow> string list" where
  "roll_up_group_cols p =
     take (roll_up_idx p + 1) (columns (lookup_hierarchy (hierarchy p)))"

definition roll_up_query :: "nav_params \<Rightarrow> sql_text \<times> pyval list" where
  "roll_up_query p =
     (let filters = (case nav_filters p of None \<Rightarrow> [] | Some f \<Rightarrow> f)
      in case build_filter_clause filters of
           (where_clause, sql_params) \<Rightarrow>
             base_query (roll_up_group_cols p) where_clause sql_params)"

section \<open>Storage, frames and agent outputs (backend/agents/base.py, backend/core/database.py)\<close>

text \<open>
  \<open>query_df\<close> builds the frame from one dict per fetched row, so a result with no
  rows is a frame with no columns. Storage is a parameter \<open>db\<close> of the model: it
  maps the query and its bind values to the fetched rows, or to the message of the
  exception that \<open>execute\<close> raised.
\<close>

type_synonym frame = "pydict list"

type_synonym storage = "sql_text \<Rightarrow> pyval list \<Rightarrow> string + frame"

text \<open>The columns are the keys of the row dicts, in the order of their first appearance.\<close>

definition frame_columns :: "frame \<Rightarrow> string list" where
  "frame_columns df = rev (remdups (rev (concat (map (map fst) df))))"

text \<open>\<open>df[col]\<close>: KeyError when the frame has no such column; a dict without the key gives NaN.\<close>

definition frame_column :: "frame \<Rightarrow> string \<Rightarrow> string + pyval list" where
  "frame_column df col =
     (if col \<in> set (frame_columns df)
      then Inr (map (\<lambda>r. case map_of r col of Some v \<Rightarrow> v | None \<Rightarrow> PNaN) df)
      else Inl (''KeyError: '' @ col))"

text \<open>
  \<open>Series.sum()\<close> of a column of SQL REAL or INTEGER aggregates; NULL and NaN are
  skipped. The sum is written without the rounding of the additions: it is only
  formatted into the summary text.
\<close>

fun num_sum :: "pyval list \<Rightarrow> real" where
  "num_sum [] = 0"
| "num_sum (PInt i # vs) = real_of_int i + num_sum vs"
| "num_sum (PFloat x # vs) = x + num_sum vs"
| "num_sum (_ # vs) = num_sum vs"

record AgentInput =
  operation :: string
  parameters :: pyval
  "context" :: "string option"

record AgentOutput =
  agent :: string
  out_operation :: string
  sql :: sql_text
  data :: "frame option"
  summary :: string
  error :: "string option"
  metadata :: pydict

text \<open>
  The text of a formatted f-string field \<open>{v:spec}\<close> is a parameter \<open>fmt spec v\<close>
  of the model (\<open>fmt [] v\<close> is \<open>{v}\<close>).
\<close>

type_synonym formatter = "string \<Rightarrow> pyval \<Rightarrow> string"

subsection \<open>\<open>DimensionNavigatorAgent._group_by\<close>\<close>

record group_params =
  dimensions :: "string list option"
  group_filters :: "pydict option"

text \<open>\<open>col_map.get(d, f"d.{d}")\<close>\<close>

definition nav_group_col :: "string \<Rightarrow> string" where
  "nav_group_col d = (case map_of nav_col_map d of Some c \<Rightarrow> c | None \<Rightarrow> ''d.'' @ d)"

definition group_by_query :: "group_params \<Rightarrow> sql_text \<times> pyval list" where
  "group_by_query p =
     (let dims = (case dimensions p of None \<Rightarrow> [''region''] | Some ds \<Rightarrow> ds);
          filters = (case group_filters p of None \<Rightarrow> [] | Some f \<Rightarrow> f);
          group_cols = map nav_group_col dims
      in case build_filter_clause filters of
           (where_clause, sql_params) \<Rightarrow> base_query group_cols where_clause sql_params)"

definition group_by :: "storage \<Rightarrow> formatter \<Rightarrow> group_params \<Rightarrow> string + AgentOutput" where
  "group_by db fmt p =
     (let dims = (case dimensions p of None \<Rightarrow> [''region''] | Some ds \<Rightarrow> ds)
      in case group_by_query p of
           (q, sql_params) \<Rightarrow>
             (case db q sql_params of
                Inl e \<Rightarrow> Inl e
              | Inr df \<Rightarrow>
                  (case frame_column df ''total_revenue'' of
                     Inl e \<Rightarrow> Inl e
                   | Inr col \<Rightarrow>
                       Inr \<lparr>agent = ''DimensionNavigator'', out_operation = ''group'',
                            sql = q, data = Some df,
                            summary = ''Grouped by ['' @ join '', '' dims @ '']. ''
                              @ fmt [] (PInt (int (length df))) @ '' groups. Total revenue: $''
                              @ fmt '',.2f'' (PFloat (num_sum col)),
                            error = None,
                            metadata = [(''dimensions'', PList (map PStr dims))]\<rparr>)))"

section \<open>Cube Operations (backend/agents/cube\_operations.py)\<close>

definition cube_COL_MAP :: "(string \<times> string) list" where
  "cube_COL_MAP =
     [(''year'', ''d.year''), (''quarter'', ''d.quarter''), (''month'', ''d.month_name''),
      (''month_num'', ''d.month''),
      (''region'', ''g.region''), (''country'', ''g.country''),
      (''category'', ''p.category''), (''subcategory'', ''p.subcategory''),
      (''customer_segment'', ''c.customer_segment'')]"

text \<open>
  \<open>_build_where\<close> of cube\_operations.py: four cases for the value, tried in the
  order list, dict with \<open>gte\<close>, dict with \<open>lte\<close>, anything else. \<open>val["gte"]\<close> is
  the value stored under the key.
\<close>

definition dict_get :: "pydict \<Rightarrow> string \<Rightarrow> pyval" where
  "dict_get d k = (case map_of d k of Some v \<Rightarrow> v | None \<Rightarrow> PNone)"

fun cube_where_loop :: "pydict \<Rightarrow> string list \<Rightarrow> pyval list \<Rightarrow> string list \<times> pyval list" where
  "cube_where_loop [] conditions params = (conditions, params)"
| "cube_where_loop ((key, val) # rest) conditions params =
     (case map_of cube_COL_MAP key of
        None \<Rightarrow> cube_where_loop rest conditions params
      | Some col \<Rightarrow>
          (case val of
             PList vs \<Rightarrow>
               cube_where_loop rest
                 (conditions @ [col @ '' IN ('' @ placeholders (length vs) @ '')''])
                 (params @ vs)
           | PDict d \<Rightarrow>
               (if ''gte'' \<in> fst ` set d then
                  cube_where_loop rest (conditions @ [col @ '' >= ?'']) (params @ [dict_get d ''gte''])
                else if ''lte'' \<in> fst ` set d then
                  cube_where_loop rest (conditions @ [col @ '' <= ?'']) (params @ [dict_get d ''lte''])
                else
                  cube_where_loop rest (conditions @ [col @ '' = ?'']) (params @ [val]))
           | _ \<Rightarrow>
               cube_where_loop rest (conditions @ [col @ '' = ?'']) (params @ [val])))"

definition cube_build_where :: "pydict \<Rightarrow> string \<times> pyval list" where
  "cube_build_where filters =
     (case cube_where_loop filters [] [] of
        (conditions, params) \<Rightarrow> (where_of conditions, params))"

record cube_params =
  cube_filters :: "pydict option"
  cube_group_by :: "string list option"

text \<open>\<open>COL_MAP.get(d, d)\<close>\<close>

definition cube_group_col :: "string \<Rightarrow> string" where
  "cube_group_col d = (case map_of cube_COL_MAP d of Some c \<Rightarrow> c | None \<Rightarrow> d)"

text \<open>\<open>", ".join(f"{k}={v}" for k, v in filters.items())\<close>\<close>

definition filter_desc :: "formatter \<Rightarrow> pydict \<Rightarrow> string" where
  "filter_desc fmt filters = join '', '' (map (\<lambda>(k, v). k @ ''='' @ fmt [] v) filters)"

text \<open>
  \<open>_slice\<close> reads the filter from the key \<open>filter\<close> and groups by \<open>["region"]\<close> when
  no grouping is given; \<open>_dice\<close> reads \<open>filters\<close> and defaults to \<open>["country"]\<close>.
  Both use the same template with the holes \<open>select_str\<close>, \<open>where\<close>,
  \<open>select_str\<close>.
\<close>

definition slice_query :: "cube_params \<Rightarrow> sql_text \<times> pyval list" where
  "slice_query p =
     (let filters = (case cube_filters p of None \<Rightarrow> [] | Some f \<Rightarrow> f);
          group_dims = (case cube_group_by p of None \<Rightarrow> [''region''] | Some ds \<Rightarrow> ds);
          select_str = join '', '' (map cube_group_col group_dims)
      in case cube_build_where filters of
           (where_clause, sql_params) \<Rightarrow>
             (Sql_template ''_slice'' [select_str, where_clause, select_str], sql_params))"

definition slice :: "storage \<Rightarrow> formatter \<Rightarrow> cube_params \<Rightarrow> string + AgentOutput" where
  "slice db fmt p =
     (let filters = (case cube_filters p of None \<Rightarrow> [] | Some f \<Rightarrow> f);
          group_dims = (case cube_group_by p of None \<Rightarrow> [''region''] | Some ds \<Rightarrow> ds)
      in case slice_query p of
           (q, sql_params) \<Rightarrow>
             (case db q sql_params of
                Inl e \<Rightarrow> Inl e
              | Inr df \<Rightarrow>
                  (case frame_column df ''total_revenue'' of
                     Inl e \<Rightarrow> Inl e
                   | Inr col \<Rightarrow>
                       Inr \<lparr>agent = ''CubeOperations'', out_operation = ''slice'',
                            sql = q, data = Some df,
                            summary = ''Slice on ['' @ filter_desc fmt filters @ ''], grouped by ''
                              @ fmt [] (PList (map PStr group_dims)) @ ''. ''
                              @ fmt [] (PInt (int (length df))) @ '' results. Revenue total: $''
                              @ fmt '',.2f'' (PFloat (num_sum col)),
                            error = None,
                            metadata = [(''filters'', PDict filters),
                                        (''group_by'', PList (map PStr group_dims))]\<rparr>)))"

definition dice_query :: "cube_params \<Rightarrow> sql_text \<times> pyval list" where
  "dice_query p =
     (let filters = (case cube_filters p of None \<Rightarrow> [] | Some f \<Rightarrow> f);
          group_dims = (case cube_group_by p of None \<Rightarrow> [''country''] | Some ds \<Rightarrow> ds);
          select_str = join '', '' (map cube_group_col group_dims)
      in case cube_build_where filters of
           (where_clause, sql_params) \<Rightarrow>
             (Sql_template ''_dice'' [select_str, where_clause, select_str], sql_params))"

text \<open>
  \<open>df.empty\<close> holds for a frame without rows or without columns.
\<close>

definition frame_empty :: "frame \<Rightarrow> bool" where
  "frame_empty df = (df = [] \<or> frame_columns df = [])"

text \<open>
  The frame constructor gives every column one dtype: \<open>int64\<close> for integers only,
  \<open>float64\<close> for numbers with a float, a NaN or a NULL among them (NULL becomes NaN),
  \<open>object\<close> otherwise. A row dict without the key of a column leaves NaN there.
\<close>

datatype dtype = Int64 | Float64 | Object

definition cell :: "pydict \<Rightarrow> string \<Rightarrow> pyval" where
  "cell r col = (case map_of r col of Some v \<Rightarrow> v | None \<Rightarrow> PNaN)"

fun is_int :: "pyval \<Rightarrow> bool" where
  "is_int (PInt i) = True"
| "is_int v = False"

fun is_number :: "pyval \<Rightarrow> bool" where
  "is_number (PInt i) = True"
| "is_number (PFloat x) = True"
| "is_number PNaN = True"
| "is_number v = False"

definition column_dtype :: "frame \<Rightarrow> string \<Rightarrow> dtype" where
  "column_dtype df col =
     (let vs = map (\<lambda>r. cell r col) df
      in if list_all is_int vs then Int64
         else if list_all (\<lambda>v. is_number v \<or> v = PNone) vs \<and> list_ex is_number vs
           then Float64
         else Object)"

fun to_float :: "pyval \<Rightarrow> pyval" where
  "to_float (PInt i) = PFloat (fl (real_of_int i))"
| "to_float PNone = PNaN"
| "to_float v = v"

text \<open>
  \<open>df.iloc[0]\<close> of a frame that is not empty: the first row as a Series over the
  columns. The Series has one dtype for all cells: when no column is \<open>object\<close> and
  one is \<open>float64\<close>, the integers of the row become floats.
\<close>

definition iloc0 :: "frame \<Rightarrow> pydict" where
  "iloc0 df =
     (let cols = frame_columns df;
          numeric_row = (list_all (\<lambda>c. column_dtype df c \<noteq> Object) cols
                         \<and> list_ex (\<lambda>c. column_dtype df c = Float64) cols)
      in map (\<lambda>c. (c, if numeric_row \<or> column_dtype df c = Float64
                        then to_float (cell (hd df) c) else cell (hd df) c)) cols)"

text \<open>
  \<open>top = df.iloc[0]\<close> is read only when the frame is not empty: \<open>top.iloc[0]\<close> is
  the cell of the first column and \<open>top['total_revenue']\<close> raises KeyError without
  the column.
\<close>

definition dice :: "storage \<Rightarrow> formatter \<Rightarrow> cube_params \<Rightarrow> string + AgentOutput" where
  "dice db fmt p =
     (let filters = (case cube_filters p of None \<Rightarrow> [] | Some f \<Rightarrow> f);
          group_dims = (case cube_group_by p of None \<Rightarrow> [''country''] | Some ds \<Rightarrow> ds)
      in case dice_query p of
           (q, sql_params) \<Rightarrow>
             (case db q sql_params of
                Inl e \<Rightarrow> Inl e
              | Inr df \<Rightarrow>
                  (let summary0 = ''Dice with filters ['' @ filter_desc fmt filters
                         @ ''], grouped by '' @ fmt [] (PList (map PStr group_dims)) @ ''. ''
                         @ fmt [] (PInt (int (length df))) @ '' results.'';
                       out = (\<lambda>s. \<lparr>agent = ''CubeOperations'', out_operation = ''dice'',
                            sql = q, data = Some df, summary = s, error = None,
                            metadata = [(''filters'', PDict filters),
                                        (''group_by'', PList (map PStr group_dims))]\<rparr>)
                   in if frame_empty df then Inr (out summary0)
                      else (let top_row = iloc0 df
                            in case map_of top_row ''total_revenue'' of
                                 None \<Rightarrow> Inl ''KeyError: total_revenue''
                               | Some revenue_cell \<Rightarrow>
                                   Inr (out (summary0 @ '' Leader: '' @ fmt [] (snd (hd top_row))
                                        @ '' ($'' @ fmt '',.2f'' revenue_cell @ '')''))))))"

section \<open>KPI Calculator (backend/agents/kpi\_calculator.py)\<close>

definition kpi_COL_MAP :: "(string \<times> string) list" where
  "kpi_COL_MAP =
     [(''year'', ''d.year''), (''quarter'', ''d.quarter''), (''month'', ''d.month_name''),
      (''region'', ''g.region''), (''country'', ''g.country''),
      (''category'', ''p.category''), (''subcategory'', ''p.subcategory''),
      (''customer_segment'', ''c.customer_segment'')]"

text \<open>\<open>_build_where\<close> of kpi\_calculator.py: a list, or anything else.\<close>

fun kpi_where_loop :: "pydict \<Rightarrow> string list \<Rightarrow> pyval list \<Rightarrow> string list \<times> pyval list" where
  "kpi_where_loop [] conditions params = (conditions, params)"
| "kpi_where_loop ((key, val) # rest) conditions params =
     (case map_of kpi_COL_MAP key of
        None \<Rightarrow> kpi_where_loop rest conditions params
      | Some col \<Rightarrow>
          (case val of
             PList vs \<Rightarrow>
               kpi_where_loop rest
                 (conditions @ [col @ '' IN ('' @ placeholders (length vs) @ '')''])
                 (params @ vs)
           | _ \<Rightarrow>
               kpi_where_loop rest (conditions @ [col @ '' = ?'']) (params @ [val])))"

definition kpi_build_where :: "pydict \<Rightarrow> string \<times> pyval list" where
  "kpi_build_where filters =
     (case kpi_where_loop filters [] [] of
        (conditions, params) \<Rightarrow> (where_of conditions, params))"

section \<open>String methods\<close>

text \<open>
  \<open>str.lower()\<close> on the Latin-1 range: the ASCII capitals and the capitals
  \<open>0xC0..0xDE\<close> except the multiplication sign \<open>0xD7\<close> move up by 32.
\<close>

definition lower_char :: "char \<Rightarrow> char" where
  "lower_char c =
     (let n = (of_char c :: nat)
      in if (65 \<le> n \<and> n \<le> 90) \<or> (192 \<le> n \<and> n \<le> 222 \<and> n \<noteq> 215)
         then char_of (n + 32) else c)"

definition py_lower :: "string \<Rightarrow> string" where
  "py_lower s = map lower_char s"

text \<open>\<open>s.replace("-", "_")\<close>\<close>

definition dash_to_underscore :: "string \<Rightarrow> string" where
  "dash_to_underscore s = map (\<lambda>c. if c = CHR ''-'' then CHR ''_'' else c) s"

text \<open>
  \<open>str.title()\<close>, for ASCII text: the first letter of every run of letters is
  upper-cased, the other letters are lower-cased. The planner applies it to its own
  ASCII literals only.
\<close>

definition ascii_alpha :: "char \<Rightarrow> bool" where
  "ascii_alpha c = (let n = (of_char c :: nat) in (65 \<le> n \<and> n \<le> 90) \<or> (97 \<le> n \<and> n \<le> 122))"

definition ascii_upper_char :: "char \<Rightarrow> char" where
  "ascii_upper_char c =
     (let n = (of_char c :: nat) in if 97 \<le> n \<and> n \<le> 122 then char_of (n - 32) else c)"

fun title_from :: "bool \<Rightarrow> string \<Rightarrow> string" where
  "title_from prev_cased [] = []"
| "title_from prev_cased (c # cs) =
     (if ascii_alpha c
      then (if prev_cased then lower_char c else ascii_upper_char c) # title_from True cs
      else c # title_from False cs)"

definition py_title :: "string \<Rightarrow> string" where
  "py_title s = title_from False s"

text \<open>
  \<open>str.split()\<close> without arguments cuts at runs of whitespace and yields no empty
  word. The whitespace code points below 256 are 9 to 13, 28 to 32, 133 and 160.
\<close>

definition is_space :: "char \<Rightarrow> bool" where
  "is_space c = ((of_char c :: nat) \<in> {9, 10, 11, 12, 13, 28, 29, 30, 31, 32, 133, 160})"

fun split_from :: "string \<Rightarrow> string \<Rightarrow> string list" where
  "split_from [] word = (if word = [] then [] else [word])"
| "split_from (c # cs) word =
     (if is_space c
      then (if word = [] then split_from cs [] else word # split_from cs [])
      else split_from cs (word @ [c]))"

definition py_split :: "string \<Rightarrow> string list" where
  "py_split s = split_from s []"

text \<open>
  \<open>str.isdigit()\<close> accepts, below 256, the decimal digits and the superscript digits
  \<open>0xB2\<close>, \<open>0xB3\<close>, \<open>0xB9\<close>; the empty string is not a digit string.
  \<open>int(word)\<close> on a digit string parses decimal digits only and raises ValueError on
  the superscripts; CPython from 3.11 on also raises ValueError beyond 4300 digits.
\<close>

definition is_decimal_char :: "char \<Rightarrow> bool" where
  "is_decimal_char c = (let n = (of_char c :: nat) in 48 \<le> n \<and> n \<le> 57)"

definition is_digit_char :: "char \<Rightarrow> bool" where
  "is_digit_char c = (is_decimal_char c \<or> (of_char c :: nat) \<in> {178, 179, 185})"

definition isdigit :: "string \<Rightarrow> bool" where
  "isdigit w = (w \<noteq> [] \<and> list_all is_digit_char w)"

definition decimal_value :: "string \<Rightarrow> int" where
  "decimal_value w = foldl (\<lambda>acc c. acc * 10 + (int (of_char c) - 48)) 0 w"

definition py_int :: "string \<Rightarrow> string + int" where
  "py_int w =
     (if list_all is_decimal_char w \<and> length w \<le> 4300
      then Inr (decimal_value w)
      else Inl ''ValueError'')"

text \<open>\<open>str(n)\<close> of an integer\<close>

fun str_nat :: "nat \<Rightarrow> string" where
  "str_nat n =
     (if n < 10 then [char_of (48 + n)]
      else str_nat (n div 10) @ [char_of (48 + n mod 10)])"

declare str_nat.simps [simp del]

definition str_int :: "int \<Rightarrow> string" where
  "str_int i = (if i < 0 then CHR ''-'' # str_nat (nat (- i)) else str_nat (nat i))"

section \<open>The \<open>run\<close> methods of the agents\<close>

text \<open>
  Each \<open>run\<close> picks a method of its class by the operation name. The methods
  themselves read storage; here they are a parameter \<open>impl\<close>, a function from the
  chosen method, the parameter bag and the context to the output or to the message of
  a raised exception.
\<close>

type_synonym 'm methods = "'m \<Rightarrow> pyval \<Rightarrow> string option \<Rightarrow> string + AgentOutput"

definition error_output :: "string \<Rightarrow> string \<Rightarrow> string \<Rightarrow> AgentOutput" where
  "error_output name oper msg =
     \<lparr>agent = name, out_operation = oper, sql = Sql_literal [], data = None,
      summary = [], error = Some msg, metadata = []\<rparr>"

datatype nav_method = Drill_down | Roll_up | Group_by

definition DimensionNavigator_run :: "nav_method methods \<Rightarrow> AgentInput \<Rightarrow> string + AgentOutput" where
  "DimensionNavigator_run impl agent_input =
     (let oper = py_lower (operation agent_input);
          params = parameters agent_input
      in if oper \<in> {''drill_down'', ''drill-down''} then
           impl Drill_down params (context agent_input)
         else if oper \<in> {''roll_up'', ''roll-up''} then
           impl Roll_up params (context agent_input)
         else if oper = ''group'' then
           impl Group_by params (context agent_input)
         else
           Inr (error_output ''DimensionNavigator'' oper
                  (''Unknown operation '' @ [CHR 0x27] @ oper @ [CHR 0x27]
                   @ ''. Supported: drill_down, roll_up, group'')))"

datatype cube_method = Slice | Dice | Pivot | Drill_through

definition CubeOperations_run :: "cube_method methods \<Rightarrow> AgentInput \<Rightarrow> string + AgentOutput" where
  "CubeOperations_run impl agent_input =
     (let oper = dash_to_underscore (py_lower (operation agent_input));
          p = parameters agent_input
      in if oper = ''slice'' then impl Slice p (context agent_input)
         else if oper = ''dice'' then impl Dice p (context agent_input)
         else if oper = ''pivot'' then impl Pivot p (context agent_input)
         else if oper = ''drill_through'' then impl Drill_through p (context agent_input)
         else
           Inr (error_output ''CubeOperations'' oper
                  (''Unknown op '' @ [CHR 0x27] @ oper @ [CHR 0x27]
                   @ ''. Supported: slice, dice, pivot, drill_through'')))"

datatype kpi_method =
  Yoy_growth | Mom_change | Compare_periods | Top_n | Profit_margins | Overall_summary

definition kpi_dispatch :: "(string \<times> kpi_method) list" where
  "kpi_dispatch =
     [(''yoy'', Yoy_growth), (''yoy_growth'', Yoy_growth),
      (''mom'', Mom_change), (''mom_change'', Mom_change),
      (''compare'', Compare_periods), (''compare_periods'', Compare_periods),
      (''top_n'', Top_n), (''ranking'', Top_n),
      (''margins'', Profit_margins), (''profit_margins'', Profit_margins),
      (''summary'', Overall_summary)]"

text \<open>\<open>fn = dispatch.get(op, self._overall_summary)\<close>\<close>

definition KPICalculator_run :: "kpi_method methods \<Rightarrow> AgentInput \<Rightarrow> string + AgentOutput" where
  "KPICalculator_run impl agent_input =
     (let oper = dash_to_underscore (py_lower (operation agent_input));
          p = parameters agent_input;
          fn = (case map_of kpi_dispatch oper of Some m \<Rightarrow> m | None \<Rightarrow> Overall_summary)
      in impl fn p (context agent_input))"

datatype report_method = Format_table | Executive_summary | Trend_report

definition ReportGenerator_run :: "report_method methods \<Rightarrow> AgentInput \<Rightarrow> string + AgentOutput" where
  "ReportGenerator_run impl agent_input =
     (let oper = dash_to_underscore (py_lower (operation agent_input));
          p = parameters agent_input
      in if oper \<in> {''format_table'', ''table''} then
           impl Format_table p (context agent_input)
         else if oper \<in> {''executive_summary'', ''summary'', ''narrative''} then
           impl Executive_summary p (context agent_input)
         else if oper \<in> {''trend_report'', ''trend''} then
           impl Trend_report p (context agent_input)
         else
           impl Executive_summary p (context agent_input))"

datatype anomaly_method = Monthly_anomaly | Product_anomaly

definition AnomalyDetection_run :: "anomaly_method methods \<Rightarrow> AgentInput \<Rightarrow> string + AgentOutput" where
  "AnomalyDetection_run impl agent_input =
     (let oper = py_lower (operation agent_input);
          p = parameters agent_input
      in if oper \<in> {''time_anomaly'', ''monthly''} then
           impl Monthly_anomaly p (context agent_input)
         else if oper \<in> {''product_anomaly'', ''product''} then
           impl Product_anomaly p (context agent_input)
         else
           impl Monthly_anomaly p (context agent_input))"

text \<open>\<open>VisualizationAgent.run\<close> has one body, which never reads the operation name.\<close>

datatype visualization_method = Visualize

definition Visualization_run :: "visualization_method methods \<Rightarrow> AgentInput \<Rightarrow> string + AgentOutput" where
  "Visualization_run impl agent_input =
     impl Visualize (parameters agent_input) (context agent_input)"

section \<open>Orchestrator (backend/core/orchestrator.py)\<close>

text \<open>
  A plan step is a dict with the keys \<open>agent\<close>, \<open>operation\<close> and \<open>parameters\<close>;
  \<open>step.get\<close> reads an absent key as the empty string or the empty dict.
\<close>

record Step =
  step_agent :: string
  step_operation :: string
  step_parameters :: pyval

record Plan =
  intent :: string
  steps :: "Step list"
  always_include_report :: bool
  suggested_followups :: "string list"

subsection \<open>\<open>_rule_based_plan\<close>\<close>

text \<open>
  The loop of the \<open>top\<close> branch: \<open>n\<close> stays 5 unless a word is a digit string, and
  the first such word is converted with \<open>int\<close>, which may raise.
\<close>

fun first_number :: "string list \<Rightarrow> string + int" where
  "first_number [] = Inr 5"
| "first_number (word # rest) = (if isdigit word then py_int word else first_number rest)"

text \<open>\<open>min(years)\<close> and \<open>max(years)\<close> of a non-empty list\<close>

definition py_min :: "int list \<Rightarrow> int" where
  "py_min xs = fold min (tl xs) (hd xs)"

definition py_max :: "int list \<Rightarrow> int" where
  "py_max xs = fold max (tl xs) (hd xs)"

definition mk_step :: "string \<Rightarrow> string \<Rightarrow> pydict \<Rightarrow> Step" where
  "mk_step a oper params =
     \<lparr>step_agent = a, step_operation = oper, step_parameters = PDict params\<rparr>"

text \<open>
  The chain of \<open>if\<close>/\<open>elif\<close> on the lower-cased query; \<open>Inl\<close> is the message of
  an exception that leaves the function. The result is the list \<open>steps\<close> before the
  two appends at the end.
\<close>

definition plan_branch :: "string \<Rightarrow> int list \<Rightarrow> pydict \<Rightarrow> string + Step list" where
  "plan_branch q years filters =
     (if sublist ''compare'' q \<or> sublist ''vs'' q \<or> sublist ''versus'' q \<or> sublist ''growth'' q then
        (if length years \<ge> 2 then
           Inr [mk_step ''KPICalculator'' ''compare_periods''
                  [(''period_a'', PDict [(''year'', PInt (py_min years))]),
                   (''period_b'', PDict [(''year'', PInt (py_max years))]),
                   (''group_by'',
                      if sublist ''region'' q then PStr ''region''
                      else if sublist ''categor'' q then PStr ''category'' else PNone)]]
         else
           Inr [mk_step ''KPICalculator'' ''yoy_growth''
                  [(''dimension'', if sublist ''region'' q then PStr ''region'' else PNone)]])
      else if sublist ''drill'' q \<and> (sublist ''down'' q \<or> sublist ''into'' q \<or> sublist ''break'' q) then
        (let hl0 = (''time'', if sublist ''month'' q then ''month'' else ''quarter'');
             hl1 = (if sublist ''country'' q \<or> sublist ''countr'' q
                    then (''geography'', ''country'') else hl0);
             hl2 = (if sublist ''subcategor'' q then (''product'', ''subcategory'') else hl1)
         in Inr [mk_step ''DimensionNavigator'' ''drill_down''
                   [(''hierarchy'', PStr (fst hl2)), (''to_level'', PStr (snd hl2)),
                    (''filters'', PDict filters)]])
      else if sublist ''top'' q then
        (case first_number (py_split q) of
           Inl e \<Rightarrow> Inl e
         | Inr n \<Rightarrow>
             (let dimension =
                    (if sublist ''countr'' q then ''country''
                     else if sublist ''categor'' q then ''category''
                     else if sublist ''sub'' q then ''subcategory'' else ''region'');
                  measure = (if sublist ''profit'' q then ''profit'' else ''revenue'')
              in Inr [mk_step ''KPICalculator'' ''top_n''
                        [(''n'', PInt n), (''dimension'', PStr dimension),
                         (''measure'', PStr measure), (''filters'', PDict filters)]]))
      else if sublist ''trend'' q \<or> sublist ''month'' q \<or> sublist ''monthly'' q then
        (let year = (if years \<noteq> [] then hd years else 2024)
         in Inr [mk_step ''ReportGenerator'' ''trend_report'' [(''year'', PInt year)]])
      else if sublist ''slice'' q \<or> length filters = 1 then
        (let group_by_dim =
               (if sublist ''category'' q \<or> sublist ''product'' q then ''category'' else ''region'')
         in Inr [mk_step ''CubeOperations'' ''slice''
                   [(''filter'', PDict filters), (''group_by'', PList [PStr group_by_dim])]])
      else if sublist ''dice'' q \<or> length filters \<ge> 2 then
        (let group_by_dim =
               (if sublist ''countr'' q then ''country''
                else if sublist ''sub'' q then ''subcategory'' else ''region'')
         in Inr [mk_step ''CubeOperations'' ''dice''
                   [(''filters'', PDict filters), (''group_by'', PList [PStr group_by_dim])]])
      else if sublist ''pivot'' q then
        Inr [mk_step ''CubeOperations'' ''pivot''
               [(''row_dim'', PStr ''region''), (''col_dim'', PStr ''year''),
                (''measure'', PStr ''revenue'')]]
      else if sublist ''anomal'' q \<or> sublist ''unusual'' q \<or> sublist ''outlier'' q then
        Inr [mk_step ''AnomalyDetection'' ''monthly_anomaly'' []]
      else if sublist ''margin'' q \<or> sublist ''profit'' q then
        Inr [mk_step ''KPICalculator'' ''profit_margins''
               [(''dimension'', PStr (if sublist ''categor'' q then ''category'' else ''region'')),
                (''filters'', PDict filters)]]
      else if sublist ''region'' q \<or> sublist ''revenue by'' q then
        Inr [mk_step ''DimensionNavigator'' ''group''
               [(''dimensions'', PList [PStr ''region'']), (''filters'', PDict filters)]]
      else Inr [])"

definition plan_years :: "string \<Rightarrow> int list" where
  "plan_years q = filter (\<lambda>y. sublist (str_int y) q) [2022, 2023, 2024]"

definition plan_filters :: "string \<Rightarrow> pydict" where
  "plan_filters q =
     (let years = plan_years q;
          quarters = filter (\<lambda>qtr. sublist (py_lower qtr) q) [''Q1'', ''Q2'', ''Q3'', ''Q4''];
          regions = filter (\<lambda>r. sublist r q)
                      [''north america'', ''europe'', ''asia pacific'', ''latin america''];
          categories = filter (\<lambda>c. sublist c q)
                      [''electronics'', ''furniture'', ''office supplies'', ''clothing'']
      in (if length years = 1 then [(''year'', PInt (hd years))] else [])
         @ (if quarters \<noteq> [] then [(''quarter'', PStr (hd quarters))] else [])
         @ (if regions \<noteq> [] then [(''region'', PStr (py_title (hd regions)))] else [])
         @ (if categories \<noteq> [] then [(''category'', PStr (py_title (hd categories)))] else []))"

definition summary_step :: Step where
  "summary_step = mk_step ''KPICalculator'' ''summary'' []"

definition executive_summary_step :: Step where
  "executive_summary_step = mk_step ''ReportGenerator'' ''executive_summary'' []"

definition rule_based_plan :: "string \<Rightarrow> string \<Rightarrow> string + Plan" where
  "rule_based_plan query fallback_error =
     (let q = py_lower query
      in case plan_branch q (plan_years q) (plan_filters q) of
           Inl e \<Rightarrow> Inl e
         | Inr steps0 \<Rightarrow>
             (let steps1 = (if steps0 = [] then [summary_step] else steps0);
                  steps2 = steps1 @ [executive_summary_step]
              in Inr \<lparr>intent = ''Answering: '' @ [CHR 0x27] @ query @ [CHR 0x27]
                         @ (if fallback_error \<noteq> []
                            then '' [rule-based fallback: '' @ fallback_error @ '']'' else []),
                      steps = steps2,
                      always_include_report = True,
                      suggested_followups =
                        [''Which region has the highest growth?'',
                         ''Show me the top 5 subcategories by profit'',
                         ''Compare 2023 vs 2024 by category'']\<rparr>))"

subsection \<open>\<open>process\<close>: the plan executor\<close>

text \<open>
  The registry \<open>self._agents\<close> maps a name to the \<open>run\<close> method of an agent object.
  A call of \<open>run\<close> returns an output (\<open>Inr\<close>) or raises an \<open>Exception\<close> whose
  \<open>str\<close> is the message (\<open>Inl\<close>).
\<close>

type_synonym registry = "string \<Rightarrow> (AgentInput \<Rightarrow> string + AgentOutput) option"

record ledger_entry =
  led_agent :: string
  led_operation :: string
  success :: bool
  row_count :: nat

record OrchestratorResult =
  res_intent :: string
  steps_executed :: "ledger_entry list"
  outputs :: "AgentOutput list"
  narrative :: string
  res_suggested_followups :: "string list"
  res_error :: "string option"

text \<open>The body of the \<open>try\<close> statement and its handler.\<close>

definition run_guarded :: "(AgentInput \<Rightarrow> string + AgentOutput) \<Rightarrow> string \<Rightarrow> Step \<Rightarrow> AgentOutput" where
  "run_guarded agent_run user_query step =
     (case agent_run \<lparr>operation = step_operation step,
                      parameters = step_parameters step,
                      context = Some user_query\<rparr> of
        Inr out \<Rightarrow> out
      | Inl e \<Rightarrow>
          \<lparr>agent = step_agent step, out_operation = step_operation step,
           sql = Sql_literal [], data = None, summary = [], error = Some e,
           metadata = []\<rparr>)"

definition ledger_of :: "Step \<Rightarrow> AgentOutput \<Rightarrow> ledger_entry" where
  "ledger_of step out =
     \<lparr>led_agent = step_agent step, led_operation = step_operation step,
      success = (error out = None),
      row_count = (case data out of None \<Rightarrow> 0 | Some df \<Rightarrow> length df)\<rparr>"

text \<open>The \<open>for\<close> loop over the steps, appending to \<open>outputs\<close> and \<open>steps_executed\<close>.\<close>

fun execute_steps ::
  "registry \<Rightarrow> string \<Rightarrow> Step list \<Rightarrow> AgentOutput list \<Rightarrow> ledger_entry list
     \<Rightarrow> AgentOutput list \<times> ledger_entry list" where
  "execute_steps agents user_query [] outs ledger = (outs, ledger)"
| "execute_steps agents user_query (step # rest) outs ledger =
     (case agents (step_agent step) of
        None \<Rightarrow> execute_steps agents user_query rest outs ledger
      | Some agent_run \<Rightarrow>
          (let out = run_guarded agent_run user_query step
           in execute_steps agents user_query rest
                (outs @ [out]) (ledger @ [ledger_of step out])))"

text \<open>\<open>o.summary and not o.error\<close>: a non-empty summary, and an error that is None or empty.\<close>

definition in_narrative :: "AgentOutput \<Rightarrow> bool" where
  "in_narrative out = (summary out \<noteq> [] \<and> (error out = None \<or> error out = Some []))"

definition build_narrative :: "AgentOutput list \<Rightarrow> string" where
  "build_narrative outs =
     (let summaries = map summary (filter in_narrative outs)
      in if summaries \<noteq> [] then join [CHR 0x0A, CHR 0x0A] summaries
         else ''No results generated.'')"

text \<open>
  \<open>process\<close> after the planner has returned \<open>plan\<close>; the conversation history is
  the state, a list of (role, content) pairs.
\<close>

definition process ::
  "registry \<Rightarrow> Plan \<Rightarrow> string \<Rightarrow> (string \<times> string) list
     \<Rightarrow> OrchestratorResult \<times> (string \<times> string) list" where
  "process agents plan user_query history =
     (case execute_steps agents user_query (steps plan) [] [] of
        (outs, ledger) \<Rightarrow>
          (let text = build_narrative outs
           in (\<lparr>res_intent = intent plan, steps_executed = ledger, outputs = outs,
                narrative = text,
                res_suggested_followups = suggested_followups plan,
                res_error = None\<rparr>,
               history @ [(''user'', user_query), (''assistant'', take 500 text)])))"

section \<open>KPI computations on fetched frames (backend/agents/kpi\_calculator.py)\<close>

subsection \<open>\<open>_yoy_growth\<close>: the growth records\<close>

text \<open>
  A row of the fetched frame \<open>raw\<close>. The column \<open>dim_label\<close> is selected only when
  a dimension is given: \<open>None\<close> is a row dict without that key. The labels are SQL
  values of one type with its order (region names, or years).
\<close>

record 'l raw_row =
  dim_label :: "'l option"
  year :: int
  total_revenue :: real

text \<open>
  A record of the result. The year is the number in the column \<open>year\<close> of the row;
  without a dimension the row is read as a Series of floats and the record holds that
  number as a float.
\<close>

record 'l yoy_record =
  rec_dimension :: "'l option"
  rec_year :: int
  rec_total_revenue :: real
  yoy_growth_pct :: "real option"

text \<open>
  One pass of the loop body at index \<open>i\<close> of the frame \<open>grp\<close>:
  \<open>prev\<close> is the revenue of row \<open>i - 1\<close> when \<open>i > 0\<close>, and \<open>if prev\<close> is false for
  \<open>None\<close> and for zero. \<open>prev\<close> is read with \<open>iloc\<close> and is a numpy \<open>float64\<close>, so
  are the difference, the quotient and the product \<open>growth\<close>, and \<open>round(growth, 2)\<close>
  is the rounding of numpy.
\<close>

definition growth_at :: "'l raw_row list \<Rightarrow> nat \<Rightarrow> real option" where
  "growth_at grp i =
     (let prev = (if i > 0 then Some (total_revenue (grp ! (i - 1))) else None)
      in case prev of
           None \<Rightarrow> None
         | Some pv \<Rightarrow>
             if pv = 0 then None
             else Some (np_round 2 (fmul (fdiv (fsub (total_revenue (grp ! i)) pv) pv) 100)))"

definition growth_records :: "'l option \<Rightarrow> 'l raw_row list \<Rightarrow> 'l yoy_record list" where
  "growth_records label grp =
     map (\<lambda>i. \<lparr>rec_dimension = label, rec_year = year (grp ! i),
               rec_total_revenue = total_revenue (grp ! i),
               yoy_growth_pct = growth_at grp i\<rparr>) [0..<length grp]"

text \<open>
  \<open>raw.groupby("dim_label")\<close> visits the distinct labels in ascending order, each with
  its rows in frame order; rows without a label are left out.
  \<open>sort_values("year").reset_index(drop=True)\<close> orders a group by year; the query
  groups by label and year, so the years of one group are distinct.
\<close>

definition has_dim_label :: "'l raw_row list \<Rightarrow> bool" where
  "has_dim_label raw = (\<exists>r \<in> set raw. dim_label r \<noteq> None)"

definition group_keys :: "('l::linorder) raw_row list \<Rightarrow> 'l list" where
  "group_keys raw = sort (remdups (List.map_filter dim_label raw))"

definition group_rows :: "'l raw_row list \<Rightarrow> 'l \<Rightarrow> 'l raw_row list" where
  "group_rows raw label = filter (\<lambda>r. dim_label r = Some label) raw"

definition yoy_growth_records :: "('l::linorder) raw_row list \<Rightarrow> 'l yoy_record list" where
  "yoy_growth_records raw =
     (if has_dim_label raw then
        concat (map (\<lambda>label. growth_records (Some label) (sort_key year (group_rows raw label)))
                    (group_keys raw))
      else growth_records None (sort_key year raw))"

subsection \<open>\<open>_compare_periods\<close>: merging the two period frames\<close>

text \<open>
  A row of the frame that \<open>get_period_data\<close> fetches. The column \<open>dimension\<close> is
  selected only when \<open>group_by\<close> maps to a column.
\<close>

record 'k period_row =
  dimension :: "'k option"
  revenue :: real
  profit :: real
  quantity :: int

record 'k merged_row =
  m_dimension :: "'k option"
  revenue_a :: real
  revenue_b :: real
  revenue_change :: real
  revenue_change_pct :: pyval

record ungrouped_row =
  u_revenue_a :: real
  u_revenue_b :: real
  change :: real
  change_pct :: pyval

datatype 'k comparison = Grouped "'k merged_row list" | Ungrouped ungrouped_row

definition has_dimension :: "'k period_row list \<Rightarrow> bool" where
  "has_dimension df = (\<exists>r \<in> set df. dimension r \<noteq> None)"

text \<open>
  The grouped branch works on columns: \<open>merged[rev_a].replace(0, float("nan"))\<close> turns
  a zero base into NaN, the quotient by NaN is NaN, and \<open>.round(2)\<close> is the rounding
  of numpy.
\<close>

definition merge_row :: "'k period_row \<Rightarrow> 'k period_row \<Rightarrow> 'k merged_row" where
  "merge_row a b =
     \<lparr>m_dimension = dimension a, revenue_a = revenue a, revenue_b = revenue b,
      revenue_change = np_round 2 (fsub (revenue b) (revenue a)),
      revenue_change_pct =
        (if revenue a = 0 then PNaN
         else PFloat (np_round 2 (fmul (fdiv (fsub (revenue b) (revenue a)) (revenue a)) 100)))\<rparr>"

text \<open>
  The ungrouped branch works on Python floats (\<open>float(...)\<close>):
  \<open>change_pct = (change / rev_a * 100) if rev_a else 0\<close>, and \<open>round(0, 2)\<close> is the
  integer 0.
\<close>

definition ungrouped_compare :: "'k period_row list \<Rightarrow> 'k period_row list \<Rightarrow> ungrouped_row" where
  "ungrouped_compare df_a df_b =
     (let rev_a = (if df_a \<noteq> [] then revenue (hd df_a) else 0);
          rev_b = (if df_b \<noteq> [] then revenue (hd df_b) else 0);
          chg = fsub rev_b rev_a
      in \<lparr>u_revenue_a = rev_a, u_revenue_b = rev_b, change = py_round 2 chg,
          change_pct =
            (if rev_a \<noteq> 0 then PFloat (py_round 2 (fmul (fdiv chg rev_a) 100))
             else PInt 0)\<rparr>)"

text \<open>
  Lines 217 to 238: \<open>group_by\<close> is the parameter (absent, or a name), the frames are
  the two results of \<open>get_period_data\<close>. \<open>merge\<close> is an inner join on
  \<open>dimension\<close> in the row order of the left frame, and raises KeyError when the
  right frame has no such column.
\<close>

definition compare_frames ::
  "string option \<Rightarrow> 'k period_row list \<Rightarrow> 'k period_row list \<Rightarrow> string + 'k comparison" where
  "compare_frames group_by_name df_a df_b =
     (if (group_by_name \<noteq> None \<and> group_by_name \<noteq> Some []) \<and> has_dimension df_a then
        (if \<not> has_dimension df_b then Inl ''KeyError: dimension''
         else Inr (Grouped (concat (map (\<lambda>a. map (merge_row a)
                      (filter (\<lambda>b. dimension b = dimension a) df_b)) df_a))))
      else Inr (Ungrouped (ungrouped_compare df_a df_b)))"

section \<open>Anomaly Detection (backend/agents/anomaly\_detection.py)\<close>

text \<open>
  A float is a finite number, an infinity or NaN.
\<close>

datatype pyfloat = Fin real | PosInf | NegInf | NaN

text \<open>
  \<open>Series.mean()\<close> and \<open>Series.std()\<close> add the values of a column with
  \<open>ndarray.sum\<close>, which adds in floating point in an order that depends on the
  length of the array (blocks and pairs) and on the library version. The reduction is
  the parameter \<open>fsum\<close> of the model; \<open>seq_sum\<close> adds from left to right.

  \<open>mean\<close> is the sum divided by the count, NaN for no values. \<open>std\<close> is the pandas
  default, the sample standard deviation: the mean \<open>avg\<close> is computed again, the
  squares \<open>(avg - values) ** 2\<close> are added and divided by \<open>count - 1\<close>, and the root
  is taken; it is NaN for fewer than two values.
\<close>

definition seq_sum :: "real list \<Rightarrow> real" where
  "seq_sum xs = foldl fadd 0 xs"

definition series_mean :: "(real list \<Rightarrow> real) \<Rightarrow> real list \<Rightarrow> pyfloat" where
  "series_mean fsum xs =
     (if xs = [] then NaN else Fin (fdiv (fsum xs) (real (length xs))))"

definition series_var :: "(real list \<Rightarrow> real) \<Rightarrow> real list \<Rightarrow> pyfloat" where
  "series_var fsum xs =
     (if length xs < 2 then NaN
      else (let avg = fdiv (fsum xs) (real (length xs));
                sqr = map (\<lambda>x. fmul (fsub avg x) (fsub avg x)) xs
            in Fin (fdiv (fsum sqr) (real (length xs - 1)))))"

definition series_std :: "(real list \<Rightarrow> real) \<Rightarrow> real list \<Rightarrow> pyfloat" where
  "series_std fsum xs = (case series_var fsum xs of Fin v \<Rightarrow> Fin (fl (sqrt v)) | z \<Rightarrow> z)"

text \<open>Float division of numpy: a zero divisor gives NaN or an infinity, never an exception.\<close>

definition float_div :: "pyfloat \<Rightarrow> pyfloat \<Rightarrow> pyfloat" where
  "float_div a b =
     (case (a, b) of
        (Fin x, Fin y) \<Rightarrow>
          (if y = 0 then (if x = 0 then NaN else if x > 0 then PosInf else NegInf)
           else Fin (fdiv x y))
      | _ \<Rightarrow> NaN)"

definition float_sub :: "real \<Rightarrow> pyfloat \<Rightarrow> pyfloat" where
  "float_sub x m = (case m of Fin y \<Rightarrow> Fin (fsub x y) | _ \<Rightarrow> NaN)"

definition float_round :: "nat \<Rightarrow> pyfloat \<Rightarrow> pyfloat" where
  "float_round nd z = (case z of Fin y \<Rightarrow> Fin (np_round nd y) | _ \<Rightarrow> z)"

text \<open>Comparisons with NaN are false.\<close>

definition float_gt :: "pyfloat \<Rightarrow> real \<Rightarrow> bool" where
  "float_gt z c = (case z of Fin y \<Rightarrow> y > c | PosInf \<Rightarrow> True | _ \<Rightarrow> False)"

definition float_lt :: "pyfloat \<Rightarrow> real \<Rightarrow> bool" where
  "float_lt z c = (case z of Fin y \<Rightarrow> y < c | NegInf \<Rightarrow> True | _ \<Rightarrow> False)"

definition float_abs :: "pyfloat \<Rightarrow> pyfloat" where
  "float_abs z = (case z of Fin y \<Rightarrow> Fin \<bar>y\<bar> | NegInf \<Rightarrow> PosInf | _ \<Rightarrow> z)"

record anomaly_row =
  monthly_revenue :: real
  z_score :: pyfloat
  anomaly :: bool
  anomaly_type :: string

text \<open>\<open>((df["monthly_revenue"] - mean) / std).round(3)\<close>, the stored column \<open>z_score\<close>\<close>

definition z_score_of :: "(real list \<Rightarrow> real) \<Rightarrow> real list \<Rightarrow> real \<Rightarrow> pyfloat" where
  "z_score_of fsum xs x =
     float_round 3 (float_div (float_sub x (series_mean fsum xs)) (series_std fsum xs))"

definition anomaly_type_of :: "pyfloat \<Rightarrow> string" where
  "anomaly_type_of z =
     (if float_gt z 2 then ''High'' else if float_lt z (- 2) then ''Low'' else ''Normal'')"

text \<open>
  \<open>_monthly_anomaly\<close> on the fetched column \<open>monthly_revenue\<close>, one value per month in
  time order. A result without rows is a frame without columns, and
  \<open>df["monthly_revenue"]\<close> raises KeyError. The flag and the type are read from the
  stored column \<open>z_score\<close>.
\<close>

definition monthly_anomaly :: "(real list \<Rightarrow> real) \<Rightarrow> real list \<Rightarrow> string + anomaly_row list" where
  "monthly_anomaly fsum xs =
     (if xs = [] then Inl ''KeyError: monthly_revenue''
      else Inr (map (\<lambda>x. let z = z_score_of fsum xs x
                          in \<lparr>monthly_revenue = x, z_score = z,
                              anomaly = float_gt (float_abs z) 2,
                              anomaly_type = anomaly_type_of z\<rparr>) xs))"





section \<open>Example inputs\<close>

text \<open>
  Concrete inputs at which the theorems below are evaluated: an output without error,
  method tables, a storage that answers every query with one row, a formatter, and a
  registry with one agent that raises and one that succeeds.
\<close>

definition ok_output :: "string \<Rightarrow> string \<Rightarrow> AgentOutput" where
  "ok_output name oper =
     \<lparr>agent = name, out_operation = oper, sql = Sql_literal [], data = Some [],
      summary = oper @ '' done.'', error = None, metadata = []\<rparr>"

definition example_kpi_methods :: "kpi_method methods" where
  "example_kpi_methods m p c =
     (if m = Overall_summary then Inr (ok_output ''KPICalculator'' ''summary'')
      else Inl ''another method'')"

definition example_storage :: storage where
  "example_storage q ps = Inr [[(''week_of_year'', PInt 1), (''total_revenue'', PFloat 10)]]"

definition empty_storage :: storage where
  "empty_storage q ps = Inr []"

definition example_formatter :: formatter where
  "example_formatter spec v = ''#''"

definition example_agents :: registry where
  "example_agents name =
     (if name = ''KPICalculator'' then Some (\<lambda>inp. Inl ''database is locked'')
      else if name = ''ReportGenerator''
        then Some (\<lambda>inp. Inr (ok_output ''ReportGenerator'' (operation inp)))
      else None)"

definition example_plan :: Plan where
  "example_plan =
     \<lparr>intent = ''example'',
      steps = [mk_step ''KPICalculator'' ''summary'' [],
               mk_step ''ReportGenerator'' ''executive_summary'' []],
      always_include_report = True,
      suggested_followups = []\<rparr>"

definition failing_methods :: "'m methods" where
  "failing_methods m p c = Inl ''method raised''"

definition bogus_input :: AgentInput where
  "bogus_input = \<lparr>operation = ''Bogus-Op'', parameters = PDict [], context = None\<rparr>"

definition failing_storage :: storage where
  "failing_storage q ps = Inl ''OperationalError: no such column: d.week_of_year''"

definition yearly_storage :: storage where
  "yearly_storage q ps = Inr [[(''year'', PInt 2024), (''total_revenue'', PFloat 10)]]"

definition comparison_query :: string where
  "comparison_query = ''Please compare 2023 and 2024 by region''"

definition comparison_query_2022 :: string where
  "comparison_query_2022 = ''compare 2023 and 2024 by region, unlike 2022''"

text \<open>The query "top" followed by a blank and the superscript two, code point \<open>0xB2\<close>.\<close>

definition superscript_query :: string where
  "superscript_query = ''top '' @ [CHR 0xB2]"

text \<open>Yearly revenue 100, 150, 120 without a dimension, and two regions given out of order.\<close>

definition yoy_example :: "string raw_row list" where
  "yoy_example =
     [\<lparr>dim_label = None, year = 2022, total_revenue = 100\<rparr>,
      \<lparr>dim_label = None, year = 2023, total_revenue = 150\<rparr>,
      \<lparr>dim_label = None, year = 2024, total_revenue = 120\<rparr>]"

definition yoy_labelled_example :: "string raw_row list" where
  "yoy_labelled_example =
     [\<lparr>dim_label = Some ''Europe'', year = 2023, total_revenue = 0\<rparr>,
      \<lparr>dim_label = Some ''Asia Pacific'', year = 2023, total_revenue = 200\<rparr>,
      \<lparr>dim_label = Some ''Europe'', year = 2024, total_revenue = 80\<rparr>,
      \<lparr>dim_label = Some ''Asia Pacific'', year = 2024, total_revenue = 250\<rparr>]"

text \<open>Yearly revenue 8 and then 8.03, the float nearest to 803 / 100.\<close>

definition yoy_rounding_example :: "string raw_row list" where
  "yoy_rounding_example =
     [\<lparr>dim_label = None, year = 2023, total_revenue = 8\<rparr>,
      \<lparr>dim_label = None, year = 2024, total_revenue = fl (803 / 100)\<rparr>]"




text \<open>Three months of 0.1, the float nearest to 1 / 10.\<close>

definition tenths :: "real list" where
  "tenths = [fl (1 / 10), fl (1 / 10), fl (1 / 10)]"

section \<open>Properties\<close>

subsection \<open>Floating point\<close>

lemma round_half_even_of_int: "round_half_even (of_int k) = k"
  unfolding round_half_even_def Let_def by (simp only: floor_of_int) simp

lemma round_half_even_bounds:
  "real_of_int (round_half_even y) \<le> y + 1 / 2" "y - 1 / 2 \<le> real_of_int (round_half_even y)"
  unfolding round_half_even_def Let_def by (auto split: if_splits) linarith+


lemma round_half_even_pos: "1 \<le> y \<Longrightarrow> 0 < round_half_even y"
proof -
  assume "1 \<le> y"
  then have "1 / 2 \<le> real_of_int (round_half_even y)"
    using round_half_even_bounds(2)[of y] by linarith
  then show ?thesis by linarith
qed

lemma round_half_even_neg: "y \<le> - 1 \<Longrightarrow> round_half_even y < 0"
proof -
  assume "y \<le> - 1"
  then have "real_of_int (round_half_even y) \<le> - 1 / 2"
    using round_half_even_bounds(1)[of y] by linarith
  then show ?thesis by linarith
qed

lemma fl_zero: "fl 0 = 0"
  by (simp add: fl_def)

lemma fl_unit:
  assumes "x \<noteq> 0"
  defines "u \<equiv> 2 powr (real_of_int \<lfloor>log 2 \<bar>x\<bar>\<rfloor> - 52)"
  shows "0 < u" and "fl x = real_of_int (round_half_even (x / u)) * u"
    and "2 ^ 52 \<le> \<bar>x\<bar> / u" and "\<bar>x\<bar> / u < 2 ^ 53"
proof -
  let ?e = "\<lfloor>log 2 \<bar>x\<bar>\<rfloor>"
  show u: "0 < u" by (simp add: u_def)
  show "fl x = real_of_int (round_half_even (x / u)) * u"
    using assms(1) by (simp add: fl_def u_def Let_def)
  have pos: "0 < \<bar>x\<bar>" using assms(1) by simp
  have b: "2 powr real_of_int ?e \<le> \<bar>x\<bar> \<and> \<bar>x\<bar> < 2 powr (real_of_int ?e + 1)"
    using floor_log_eq_powr_iff[OF pos, of 2 ?e] by simp
  have ue: "u = 2 powr real_of_int ?e / 2 ^ 52"
    by (simp add: u_def powr_diff)
  have lo: "2 ^ 52 * u \<le> \<bar>x\<bar>" using b by (simp add: ue)
  have hi: "\<bar>x\<bar> < 2 ^ 53 * u" using b by (simp add: ue powr_add)
  show "2 ^ 52 \<le> \<bar>x\<bar> / u"
    using lo u by (simp only: pos_le_divide_eq)
  show "\<bar>x\<bar> / u < 2 ^ 53"
    using hi u by (simp only: pos_divide_less_eq)
qed

lemma fl_eq_0_iff: "fl x = 0 \<longleftrightarrow> x = 0"
proof
  assume "x = 0" then show "fl x = 0" by (simp add: fl_zero)
next
  assume z: "fl x = 0"
  show "x = 0"
  proof (rule ccontr)
    assume nz: "x \<noteq> 0"
    define u where "u = 2 powr (real_of_int \<lfloor>log 2 \<bar>x\<bar>\<rfloor> - 52)"
    note f = fl_unit[OF nz, folded u_def]
    have "(1::real) \<le> 2 ^ 52" by simp
    with f(3) have "1 \<le> \<bar>x\<bar> / u" by linarith
    moreover have "\<bar>x / u\<bar> = \<bar>x\<bar> / u" using f(1) by simp
    ultimately have big: "1 \<le> \<bar>x / u\<bar>" by (simp only:)
    have "round_half_even (x / u) \<noteq> 0"
    proof (cases "0 \<le> x / u")
      case True
      with big have "1 \<le> x / u" by simp
      then show ?thesis using round_half_even_pos by fastforce
    next
      case False
      with big have "x / u \<le> - 1" by simp
      then show ?thesis using round_half_even_neg by fastforce
    qed
    with f(1,2) z show False by simp
  qed
qed


lemma fl_scaled:
  assumes "2 ^ 52 \<le> \<bar>x\<bar> * 2 ^ n" and "\<bar>x\<bar> * 2 ^ n < 2 ^ 53"
  shows "fl x = real_of_int (round_half_even (x * 2 ^ n)) / 2 ^ n"
proof -
  have nz: "x \<noteq> 0" using assms(1) by auto
  then have pos: "0 < \<bar>x\<bar>" by simp
  let ?e = "52 - int n"
  have p: "2 powr real_of_int ?e = 2 ^ 52 / 2 ^ n"
    by (simp add: powr_diff powr_realpow)
  have p1: "2 powr (real_of_int ?e + 1) = 2 ^ 53 / 2 ^ n"
    by (simp add: powr_add powr_diff powr_realpow)
  have "2 powr real_of_int ?e \<le> \<bar>x\<bar>" "\<bar>x\<bar> < 2 powr (real_of_int ?e + 1)"
    using assms unfolding p p1 by (simp_all add: divide_le_eq less_divide_eq)
  then have e: "\<lfloor>log 2 \<bar>x\<bar>\<rfloor> = ?e"
    using floor_log_eq_powr_iff[OF pos, of 2 ?e] by simp
  have u: "2 powr (- real n) = 1 / 2 ^ n"
    by (simp add: powr_minus powr_realpow inverse_eq_divide)
  show ?thesis
    using nz by (simp add: fl_def e u Let_def)
qed

lemma pow2_normalise:
  fixes a :: real
  assumes "1 \<le> a" and "a < 2 ^ 53"
  shows "\<exists>j::nat. 2 ^ 52 \<le> a * 2 ^ j \<and> a * 2 ^ j < 2 ^ 53"
proof -
  define P where "P j \<longleftrightarrow> 2 ^ 52 \<le> a * 2 ^ j" for j :: nat
  have "(2::real) ^ 52 * 1 \<le> 2 ^ 52 * a"
    using assms(1) by (intro mult_left_mono) simp_all
  then have P52: "P 52" by (simp add: P_def mult.commute)
  define j where "j = (LEAST j. P j)"
  have Pj: "P j" unfolding j_def using P52 by (rule LeastI)
  have "a * 2 ^ j < 2 ^ 53"
  proof (cases j)
    case 0
    then show ?thesis using assms(2) by simp
  next
    case (Suc i)
    then have "i < j" by simp
    then have "\<not> P i" unfolding j_def by (rule not_less_Least)
    then have "a * 2 ^ i < 2 ^ 52" by (simp add: P_def)
    then show ?thesis using Suc by simp
  qed
  with Pj show ?thesis unfolding P_def by blast
qed

lemma fl_dyadic:
  assumes "x * 2 ^ n = real_of_int m" and "\<bar>m\<bar> < 2 ^ 53"
  shows "fl x = x"
proof (cases "m = 0")
  case True
  with assms(1) have "x = 0" by simp
  then show ?thesis by (simp add: fl_zero)
next
  case False
  then have "1 \<le> \<bar>m\<bar>" by linarith
  then have one: "1 \<le> \<bar>real_of_int m\<bar>" by linarith
  have "real_of_int \<bar>m\<bar> < real_of_int (2 ^ 53)"
    using assms(2) by (simp only: of_int_less_iff)
  then have lt: "\<bar>real_of_int m\<bar> < 2 ^ 53" by simp
  from pow2_normalise[OF one lt] obtain j :: nat
    where j: "2 ^ 52 \<le> \<bar>real_of_int m\<bar> * 2 ^ j" "\<bar>real_of_int m\<bar> * 2 ^ j < 2 ^ 53"
    by blast
  have sc: "x * 2 ^ (n + j) = real_of_int (m * 2 ^ j)"
    using assms(1) by (simp add: power_add mult.assoc[symmetric])
  have "\<bar>x\<bar> * 2 ^ (n + j) = \<bar>x * 2 ^ (n + j)\<bar>" by (simp add: abs_mult)
  also have "\<dots> = \<bar>real_of_int m\<bar> * 2 ^ j" unfolding sc by (simp add: abs_mult)
  finally have ab: "\<bar>x\<bar> * 2 ^ (n + j) = \<bar>real_of_int m\<bar> * 2 ^ j" .
  have "fl x = real_of_int (round_half_even (x * 2 ^ (n + j))) / 2 ^ (n + j)"
    by (rule fl_scaled) (simp_all only: ab j)
  also have "\<dots> = real_of_int (m * 2 ^ j) / 2 ^ (n + j)"
    unfolding sc round_half_even_of_int ..
  also have "\<dots> = x * 2 ^ (n + j) / 2 ^ (n + j)" unfolding sc ..
  also have "\<dots> = x" by simp
  finally show ?thesis .
qed

lemma fl_of_int: "\<bar>k\<bar> < 2 ^ 53 \<Longrightarrow> fl (real_of_int k) = real_of_int k"
  using fl_dyadic[of "real_of_int k" 0 k] by simp



lemma fl_numeral: "\<bar>numeral k :: int\<bar> < 2 ^ 53 \<Longrightarrow> fl (numeral k) = numeral k"
  using fl_of_int[of "numeral k"] by simp

lemma fl_neg_numeral: "\<bar>numeral k :: int\<bar> < 2 ^ 53 \<Longrightarrow> fl (- numeral k) = - numeral k"
  using fl_of_int[of "- numeral k"] by simp


lemma fl_half: "fl (1 / 2) = 1 / 2" "fl (- (1 / 2)) = - (1 / 2)"
  using fl_dyadic[of "1 / 2" 1 1] fl_dyadic[of "- (1 / 2)" 1 "- 1"] by simp_all

lemma fl_803: "fl (803 / 100) = 4520488125973135 / 562949953421312"
  by (subst fl_scaled[where n = 49]) (simp_all add: round_half_even_def)

lemma fl_m15: "fl (- (1 / 5)) = - (3602879701896397 / 18014398509481984)"
  by (subst fl_scaled[where n = 55]) (simp_all add: round_half_even_def)

lemma fl_37: "fl (37 / 100) = 3332663724254167 / 9007199254740992"
  by (subst fl_scaled[where n = 54]) (simp_all add: round_half_even_def)

lemma fl_tenth: "fl (1 / 10) = 3602879701896397 / 36028797018963968"
  by (subst fl_scaled[where n = 56]) (simp_all add: round_half_even_def)

lemma fl_error: "\<bar>fl x - x\<bar> \<le> \<bar>x\<bar> / 2 ^ 53"
proof (cases "x = 0")
  case True
  then show ?thesis by (simp add: fl_zero)
next
  case False
  define u where "u = 2 powr (real_of_int \<lfloor>log 2 \<bar>x\<bar>\<rfloor> - 52)"
  note f = fl_unit[OF False, folded u_def]
  let ?y = "x / u"
  have xy: "x = ?y * u" using f(1) by simp
  have "\<bar>real_of_int (round_half_even ?y) - ?y\<bar> \<le> 1 / 2"
    using round_half_even_bounds[of ?y] by linarith
  then have "\<bar>real_of_int (round_half_even ?y) - ?y\<bar> * u \<le> 1 / 2 * u"
    using f(1) by (intro mult_right_mono) simp_all
  moreover have "fl x - x = (real_of_int (round_half_even ?y) - ?y) * u"
    using f(1,2) by (simp add: algebra_simps)
  ultimately have e: "\<bar>fl x - x\<bar> \<le> u / 2"
    using f(1) by (simp add: abs_mult)
  have "2 ^ 52 * u \<le> \<bar>x\<bar>"
    using f(1,3) by (simp add: pos_le_divide_eq)
  then have "u / 2 \<le> \<bar>x\<bar> / 2 ^ 53" by simp
  with e show ?thesis by linarith
qed

lemma round_half_even_unique:
  assumes "real_of_int k - 1 / 2 < y" and "y < real_of_int k + 1 / 2"
  shows "round_half_even y = k"
proof -
  have "\<bar>real_of_int (round_half_even y) - real_of_int k\<bar> < 1"
    using round_half_even_bounds[of y] assms by linarith
  then have "\<bar>real_of_int (round_half_even y - k)\<bar> < 1" by simp
  then have "\<bar>round_half_even y - k\<bar> < 1" by linarith
  then show ?thesis by linarith
qed

subsection \<open>Hierarchy navigation\<close>

lemma lookup_hierarchy_cases:
  "lookup_hierarchy hn = time_hierarchy \<or> lookup_hierarchy hn = geography_hierarchy
   \<or> lookup_hierarchy hn = product_hierarchy"
  by (simp add: lookup_hierarchy_def HIERARCHIES_def split: option.splits)

lemma list_index_None: "list_index xs x = None \<longleftrightarrow> x \<notin> set xs"
  by (induction xs) auto

lemma list_index_Some:
  "list_index xs x = Some i \<Longrightarrow> i < length xs \<and> xs ! i = x"
  by (induction xs arbitrary: i) (auto split: if_splits)

lemma list_index_distinct:
  "distinct xs \<Longrightarrow> i < length xs \<Longrightarrow> list_index xs (xs ! i) = Some i"
proof (induction xs arbitrary: i)
  case Nil
  then show ?case by simp
next
  case (Cons y ys)
  show ?case
  proof (cases i)
    case 0
    then show ?thesis by simp
  next
    case (Suc j)
    with Cons.prems have "ys ! j \<noteq> y" "j < length ys" "distinct ys" by auto
    with Cons.IH[of j] Suc show ?thesis by simp
  qed
qed

lemma hierarchy_shape:
  "distinct (levels (lookup_hierarchy hn)) \<and> levels (lookup_hierarchy hn) \<noteq> []
   \<and> length (columns (lookup_hierarchy hn)) = length (levels (lookup_hierarchy hn))"
  using lookup_hierarchy_cases[of hn]
  by (auto simp: time_hierarchy_def geography_hierarchy_def product_hierarchy_def)

lemma lookup_hierarchy_values:
  "lookup_hierarchy (Some ''time'')
     = \<lparr>levels = [''year'', ''quarter'', ''month''],
        labels = [''Year'', ''Quarter'', ''Month''],
        columns = [''d.year'', ''d.quarter'', ''d.month_name'']\<rparr>"
  "lookup_hierarchy (Some ''geography'')
     = \<lparr>levels = [''region'', ''country''],
        labels = [''Region'', ''Country''],
        columns = [''g.region'', ''g.country'']\<rparr>"
  "lookup_hierarchy (Some ''product'')
     = \<lparr>levels = [''category'', ''subcategory''],
        labels = [''Category'', ''Subcategory''],
        columns = [''p.category'', ''p.subcategory'']\<rparr>"
  "lookup_hierarchy None = lookup_hierarchy (Some ''time'')"
  by (simp_all add: lookup_hierarchy_def HIERARCHIES_def time_hierarchy_def
        geography_hierarchy_def product_hierarchy_def)

lemma list_index_absent: "x \<notin> set xs \<Longrightarrow> list_index xs x = None"
  by (simp add: list_index_None)

lemma unknown_level_time:
  assumes "lv \<notin> {''year'', ''quarter'', ''month''}"
  shows "drill_down_group_cols \<lparr>hierarchy = Some ''time'', to_level = Some lv, nav_filters = fs\<rparr>
           = [''d.year'', ''d.quarter'', ''d.month_name'']"
    and "roll_up_group_cols \<lparr>hierarchy = Some ''time'', to_level = Some lv, nav_filters = fs\<rparr>
           = [''d.year'']"
proof -
  have "list_index [''year'', ''quarter'', ''month''] lv = None"
    by (rule list_index_absent) (use assms in simp)
  then show "drill_down_group_cols \<lparr>hierarchy = Some ''time'', to_level = Some lv, nav_filters = fs\<rparr>
           = [''d.year'', ''d.quarter'', ''d.month_name'']"
    and "roll_up_group_cols \<lparr>hierarchy = Some ''time'', to_level = Some lv, nav_filters = fs\<rparr>
           = [''d.year'']"
    by (simp_all add: drill_down_group_cols_def drill_down_idx_def roll_up_group_cols_def
          roll_up_idx_def lookup_hierarchy_values)
qed

lemma unknown_level_geography:
  assumes "lv \<notin> {''region'', ''country''}"
  shows "drill_down_group_cols \<lparr>hierarchy = Some ''geography'', to_level = Some lv, nav_filters = fs\<rparr>
           = [''g.region'', ''g.country'']"
    and "roll_up_group_cols \<lparr>hierarchy = Some ''geography'', to_level = Some lv, nav_filters = fs\<rparr>
           = [''g.region'']"
proof -
  have "list_index [''region'', ''country''] lv = None"
    by (rule list_index_absent) (use assms in simp)
  then show "drill_down_group_cols \<lparr>hierarchy = Some ''geography'', to_level = Some lv, nav_filters = fs\<rparr>
           = [''g.region'', ''g.country'']"
    and "roll_up_group_cols \<lparr>hierarchy = Some ''geography'', to_level = Some lv, nav_filters = fs\<rparr>
           = [''g.region'']"
    by (simp_all add: drill_down_group_cols_def drill_down_idx_def roll_up_group_cols_def
          roll_up_idx_def lookup_hierarchy_values)
qed

lemma unknown_level_product:
  assumes "lv \<notin> {''category'', ''subcategory''}"
  shows "drill_down_group_cols \<lparr>hierarchy = Some ''product'', to_level = Some lv, nav_filters = fs\<rparr>
           = [''p.category'', ''p.subcategory'']"
    and "roll_up_group_cols \<lparr>hierarchy = Some ''product'', to_level = Some lv, nav_filters = fs\<rparr>
           = [''p.category'']"
proof -
  have "list_index [''category'', ''subcategory''] lv = None"
    by (rule list_index_absent) (use assms in simp)
  then show "drill_down_group_cols \<lparr>hierarchy = Some ''product'', to_level = Some lv, nav_filters = fs\<rparr>
           = [''p.category'', ''p.subcategory'']"
    and "roll_up_group_cols \<lparr>hierarchy = Some ''product'', to_level = Some lv, nav_filters = fs\<rparr>
           = [''p.category'']"
    by (simp_all add: drill_down_group_cols_def drill_down_idx_def roll_up_group_cols_def
          roll_up_idx_def lookup_hierarchy_values)
qed

text \<open>
  Claim C5. For every hierarchy and every requested level name that is absent from its
  level list, drill-down resolves to the finest level (all columns of the hierarchy,
  the same query as for its last level) and roll-up to the coarsest (the first column,
  the same query as for its first level); neither fails. For a level that is present
  at position \<open>i\<close>, the grouping columns are the first \<open>i + 1\<close> columns. The
  grouping columns are what the query selects and groups by. The three hierarchies
  are time (year, quarter, month), geography (region, country) and product (category,
  subcategory), each with its columns: an unknown level drills down to
  \<open>d.year, d.quarter, d.month_name\<close>, to \<open>g.region, g.country\<close> and to
  \<open>p.category, p.subcategory\<close>, and rolls up to \<open>d.year\<close>, to \<open>g.region\<close> and to
  \<open>p.category\<close>. Drilling the time hierarchy down to "decade" groups as drilling
  down to "month" does.
\<close>

theorem drill_roll_level_resolution:
  fixes hn :: "string option" and lv :: string and fs :: "pydict option"
  defines "h \<equiv> lookup_hierarchy hn"
  defines "p \<equiv> \<lparr>hierarchy = hn, to_level = Some lv, nav_filters = fs\<rparr>"
  shows "(lv \<notin> set (levels h) \<longrightarrow>
            drill_down_idx p = length (levels h) - 1
          \<and> drill_down_group_cols p = columns h
          \<and> drill_down_query p = drill_down_query (p\<lparr>to_level := Some (last (levels h))\<rparr>)
          \<and> roll_up_idx p = 0
          \<and> roll_up_group_cols p = [hd (columns h)]
          \<and> roll_up_query p = roll_up_query (p\<lparr>to_level := Some (hd (levels h))\<rparr>))
       \<and> (\<forall>i < length (levels h). lv = levels h ! i \<longrightarrow>
            drill_down_group_cols p = take (Suc i) (columns h)
          \<and> roll_up_group_cols p = take (Suc i) (columns h))
       \<and> (\<exists>where_clause sql_params.
            drill_down_query p =
              (Sql_template ''_base_query''
                 [join '', '' (drill_down_group_cols p), where_clause,
                  join '', '' (drill_down_group_cols p)], sql_params)
          \<and> roll_up_query p =
              (Sql_template ''_base_query''
                 [join '', '' (roll_up_group_cols p), where_clause,
                  join '', '' (roll_up_group_cols p)], sql_params))
       \<and> lookup_hierarchy (Some ''time'')
           = \<lparr>levels = [''year'', ''quarter'', ''month''],
              labels = [''Year'', ''Quarter'', ''Month''],
              columns = [''d.year'', ''d.quarter'', ''d.month_name'']\<rparr>
       \<and> lookup_hierarchy (Some ''geography'')
           = \<lparr>levels = [''region'', ''country''],
              labels = [''Region'', ''Country''],
              columns = [''g.region'', ''g.country'']\<rparr>
       \<and> lookup_hierarchy (Some ''product'')
           = \<lparr>levels = [''category'', ''subcategory''],
              labels = [''Category'', ''Subcategory''],
              columns = [''p.category'', ''p.subcategory'']\<rparr>
       \<and> lookup_hierarchy None = lookup_hierarchy (Some ''time'')
       \<and> (lv \<notin> {''year'', ''quarter'', ''month''} \<longrightarrow>
            drill_down_group_cols \<lparr>hierarchy = Some ''time'', to_level = Some lv, nav_filters = fs\<rparr>
              = [''d.year'', ''d.quarter'', ''d.month_name'']
          \<and> roll_up_group_cols \<lparr>hierarchy = Some ''time'', to_level = Some lv, nav_filters = fs\<rparr>
              = [''d.year''])
       \<and> (lv \<notin> {''region'', ''country''} \<longrightarrow>
            drill_down_group_cols \<lparr>hierarchy = Some ''geography'', to_level = Some lv, nav_filters = fs\<rparr>
              = [''g.region'', ''g.country'']
          \<and> roll_up_group_cols \<lparr>hierarchy = Some ''geography'', to_level = Some lv, nav_filters = fs\<rparr>
              = [''g.region''])
       \<and> (lv \<notin> {''category'', ''subcategory''} \<longrightarrow>
            drill_down_group_cols \<lparr>hierarchy = Some ''product'', to_level = Some lv, nav_filters = fs\<rparr>
              = [''p.category'', ''p.subcategory'']
          \<and> roll_up_group_cols \<lparr>hierarchy = Some ''product'', to_level = Some lv, nav_filters = fs\<rparr>
              = [''p.category''])
       \<and> drill_down_group_cols \<lparr>hierarchy = Some ''time'', to_level = Some ''decade'', nav_filters = fs\<rparr>
           = drill_down_group_cols \<lparr>hierarchy = Some ''time'', to_level = Some ''month'', nav_filters = fs\<rparr>"
proof -
  have shape: "distinct (levels h)" "levels h \<noteq> []" "length (columns h) = length (levels h)"
    using hierarchy_shape[of hn] by (simp_all add: h_def)
  have last_idx: "list_index (levels h) (last (levels h)) = Some (length (levels h) - 1)"
    using list_index_distinct[OF shape(1), of "length (levels h) - 1"] shape(2)
    by (simp add: last_conv_nth)
  have hd_idx: "list_index (levels h) (hd (levels h)) = Some 0"
    using list_index_distinct[OF shape(1), of 0] shape(2) by (simp add: hd_conv_nth)
  have idx_present: "list_index (levels h) (levels h ! i) = Some i" if "i < length (levels h)" for i
    using list_index_distinct[OF shape(1) that] .
  have d_absent: "drill_down_idx p = length (levels h) - 1" if "lv \<notin> set (levels h)"
    using that by (simp add: drill_down_idx_def p_def h_def[symmetric] list_index_None[THEN iffD2])
  have d_last: "drill_down_idx (p\<lparr>to_level := Some (last (levels h))\<rparr>) = length (levels h) - 1"
    using last_idx by (simp add: drill_down_idx_def p_def h_def[symmetric])
  have r_absent: "roll_up_idx p = 0" if "lv \<notin> set (levels h)"
    using that by (simp add: roll_up_idx_def p_def h_def[symmetric] list_index_None[THEN iffD2])
  have r_hd: "roll_up_idx (p\<lparr>to_level := Some (hd (levels h))\<rparr>) = 0"
    using hd_idx by (simp add: roll_up_idx_def p_def h_def[symmetric])
  have full: "take (length (levels h) - 1 + 1) (columns h) = columns h"
    using shape by (cases "levels h") simp_all
  have one: "take (0 + 1) (columns h) = [hd (columns h)]"
    using shape by (cases "columns h") auto
  have part1: "lv \<notin> set (levels h) \<longrightarrow>
            drill_down_idx p = length (levels h) - 1
          \<and> drill_down_group_cols p = columns h
          \<and> drill_down_query p = drill_down_query (p\<lparr>to_level := Some (last (levels h))\<rparr>)
          \<and> roll_up_idx p = 0
          \<and> roll_up_group_cols p = [hd (columns h)]
          \<and> roll_up_query p = roll_up_query (p\<lparr>to_level := Some (hd (levels h))\<rparr>)"
  proof
    assume a: "lv \<notin> set (levels h)"
    have hp: "hierarchy p = hn" "hierarchy (p\<lparr>to_level := Some (last (levels h))\<rparr>) = hn"
      "hierarchy (p\<lparr>to_level := Some (hd (levels h))\<rparr>) = hn"
      by (simp_all add: p_def)
    have g1: "drill_down_group_cols p = columns h"
      using d_absent[OF a] full by (simp add: drill_down_group_cols_def hp h_def[symmetric])
    have g2: "drill_down_group_cols (p\<lparr>to_level := Some (last (levels h))\<rparr>) = columns h"
      using d_last full by (simp add: drill_down_group_cols_def hp h_def[symmetric])
    have g3: "roll_up_group_cols p = [hd (columns h)]"
      using r_absent[OF a] one by (simp add: roll_up_group_cols_def hp h_def[symmetric])
    have g4: "roll_up_group_cols (p\<lparr>to_level := Some (hd (levels h))\<rparr>) = [hd (columns h)]"
      using r_hd one by (simp add: roll_up_group_cols_def hp h_def[symmetric])
    have q1: "drill_down_query p = drill_down_query (p\<lparr>to_level := Some (last (levels h))\<rparr>)"
      by (simp add: drill_down_query_def g1 g2)
    have q2: "roll_up_query p = roll_up_query (p\<lparr>to_level := Some (hd (levels h))\<rparr>)"
      by (simp add: roll_up_query_def g3 g4)
    show "drill_down_idx p = length (levels h) - 1
          \<and> drill_down_group_cols p = columns h
          \<and> drill_down_query p = drill_down_query (p\<lparr>to_level := Some (last (levels h))\<rparr>)
          \<and> roll_up_idx p = 0
          \<and> roll_up_group_cols p = [hd (columns h)]
          \<and> roll_up_query p = roll_up_query (p\<lparr>to_level := Some (hd (levels h))\<rparr>)"
      using d_absent[OF a] r_absent[OF a] g1 g3 q1 q2 by simp
  qed
  have part2: "\<forall>i < length (levels h). lv = levels h ! i \<longrightarrow>
            drill_down_group_cols p = take (Suc i) (columns h)
          \<and> roll_up_group_cols p = take (Suc i) (columns h)"
  proof (intro allI impI)
    fix i assume i: "i < length (levels h)" and lv: "lv = levels h ! i"
    have "drill_down_idx p = i" "roll_up_idx p = i"
      using idx_present[OF i] lv
      by (simp_all add: drill_down_idx_def roll_up_idx_def p_def h_def[symmetric])
    then show "drill_down_group_cols p = take (Suc i) (columns h)
          \<and> roll_up_group_cols p = take (Suc i) (columns h)"
      by (simp add: drill_down_group_cols_def roll_up_group_cols_def p_def h_def[symmetric])
  qed
  have part3: "\<exists>where_clause sql_params.
            drill_down_query p =
              (Sql_template ''_base_query''
                 [join '', '' (drill_down_group_cols p), where_clause,
                  join '', '' (drill_down_group_cols p)], sql_params)
          \<and> roll_up_query p =
              (Sql_template ''_base_query''
                 [join '', '' (roll_up_group_cols p), where_clause,
                  join '', '' (roll_up_group_cols p)], sql_params)"
    by (cases "build_filter_clause (case nav_filters p of None \<Rightarrow> [] | Some f \<Rightarrow> f)")
       (simp add: drill_down_query_def roll_up_query_def base_query_def Let_def)
  have part4: "drill_down_group_cols \<lparr>hierarchy = Some ''time'', to_level = Some ''decade'', nav_filters = fs\<rparr>
           = drill_down_group_cols \<lparr>hierarchy = Some ''time'', to_level = Some ''month'', nav_filters = fs\<rparr>"
    by (simp add: drill_down_group_cols_def drill_down_idx_def lookup_hierarchy_def
          HIERARCHIES_def time_hierarchy_def)
  have pin_time: "lv \<notin> {''year'', ''quarter'', ''month''} \<longrightarrow>
            drill_down_group_cols \<lparr>hierarchy = Some ''time'', to_level = Some lv, nav_filters = fs\<rparr>
              = [''d.year'', ''d.quarter'', ''d.month_name'']
          \<and> roll_up_group_cols \<lparr>hierarchy = Some ''time'', to_level = Some lv, nav_filters = fs\<rparr>
              = [''d.year'']"
    using unknown_level_time[of lv fs] by (intro impI conjI)
  have pin_geo: "lv \<notin> {''region'', ''country''} \<longrightarrow>
            drill_down_group_cols \<lparr>hierarchy = Some ''geography'', to_level = Some lv, nav_filters = fs\<rparr>
              = [''g.region'', ''g.country'']
          \<and> roll_up_group_cols \<lparr>hierarchy = Some ''geography'', to_level = Some lv, nav_filters = fs\<rparr>
              = [''g.region'']"
    using unknown_level_geography[of lv fs] by (intro impI conjI)
  have pin_prod: "lv \<notin> {''category'', ''subcategory''} \<longrightarrow>
            drill_down_group_cols \<lparr>hierarchy = Some ''product'', to_level = Some lv, nav_filters = fs\<rparr>
              = [''p.category'', ''p.subcategory'']
          \<and> roll_up_group_cols \<lparr>hierarchy = Some ''product'', to_level = Some lv, nav_filters = fs\<rparr>
              = [''p.category'']"
    using unknown_level_product[of lv fs] by (intro impI conjI)
  show ?thesis
    by (rule conjI[OF part1 conjI[OF part2 conjI[OF part3
          conjI[OF lookup_hierarchy_values(1) conjI[OF lookup_hierarchy_values(2)
          conjI[OF lookup_hierarchy_values(3) conjI[OF lookup_hierarchy_values(4)
          conjI[OF pin_time conjI[OF pin_geo conjI[OF pin_prod part4]]]]]]]]]])
qed

theorem drill_roll_level_resolution_witness:
  "''decade'' \<notin> set (levels (lookup_hierarchy (Some ''time'')))
   \<and> drill_down_group_cols \<lparr>hierarchy = Some ''time'', to_level = Some ''decade'', nav_filters = None\<rparr>
       = columns (lookup_hierarchy (Some ''time''))
   \<and> roll_up_group_cols \<lparr>hierarchy = Some ''time'', to_level = Some ''decade'', nav_filters = None\<rparr>
       = [hd (columns (lookup_hierarchy (Some ''time'')))]
   \<and> drill_down_group_cols \<lparr>hierarchy = Some ''time'', to_level = Some ''quarter'', nav_filters = None\<rparr>
       = [''d.year'', ''d.quarter'']
   \<and> roll_up_group_cols \<lparr>hierarchy = Some ''time'', to_level = Some ''quarter'', nav_filters = None\<rparr>
       = [''d.year'', ''d.quarter'']
   \<and> drill_down_group_cols \<lparr>hierarchy = Some ''geography'', to_level = Some ''continent'', nav_filters = None\<rparr>
       = [''g.region'', ''g.country'']
   \<and> roll_up_group_cols \<lparr>hierarchy = Some ''geography'', to_level = Some ''continent'', nav_filters = None\<rparr>
       = [''g.region'']
   \<and> drill_down_group_cols \<lparr>hierarchy = Some ''product'', to_level = Some ''brand'', nav_filters = None\<rparr>
       = [''p.category'', ''p.subcategory'']
   \<and> roll_up_group_cols \<lparr>hierarchy = Some ''product'', to_level = Some ''brand'', nav_filters = None\<rparr>
       = [''p.category'']
   \<and> roll_up_group_cols \<lparr>hierarchy = Some ''geography'', to_level = Some ''continent'', nav_filters = None\<rparr>
       = [hd (columns (lookup_hierarchy (Some ''geography'')))]"
proof -
  have h: "lookup_hierarchy (Some ''time'') = time_hierarchy"
    by (simp add: lookup_hierarchy_def HIERARCHIES_def)
  have a: "''decade'' \<notin> set (levels (lookup_hierarchy (Some ''time'')))"
    by (simp add: h time_hierarchy_def)
  note r = drill_roll_level_resolution[of "''decade''" "Some ''time''" None,
      THEN conjunct1, THEN mp, OF a]
  from r have c1: "drill_down_group_cols \<lparr>hierarchy = Some ''time'', to_level = Some ''decade'', nav_filters = None\<rparr>
       = columns (lookup_hierarchy (Some ''time''))"
    by (rule conjunct2[THEN conjunct1])
  from r have c2: "roll_up_group_cols \<lparr>hierarchy = Some ''time'', to_level = Some ''decade'', nav_filters = None\<rparr>
       = [hd (columns (lookup_hierarchy (Some ''time'')))]"
    by (rule conjunct2[THEN conjunct2, THEN conjunct2, THEN conjunct2, THEN conjunct1])
  have i: "(1::nat) < length (levels (lookup_hierarchy (Some ''time'')))"
    by (simp add: h time_hierarchy_def)
  have q: "''quarter'' = levels (lookup_hierarchy (Some ''time'')) ! 1"
    by (simp add: h time_hierarchy_def)
  note s = drill_roll_level_resolution[of "''quarter''" "Some ''time''" None,
      THEN conjunct2, THEN conjunct1, rule_format, OF i q]
  have t: "take (Suc 1) (columns (lookup_hierarchy (Some ''time''))) = [''d.year'', ''d.quarter'']"
    by (simp add: h time_hierarchy_def)
  have c3: "drill_down_group_cols \<lparr>hierarchy = Some ''time'', to_level = Some ''quarter'', nav_filters = None\<rparr>
       = [''d.year'', ''d.quarter'']"
    using s[THEN conjunct1] unfolding t .
  have c4: "roll_up_group_cols \<lparr>hierarchy = Some ''time'', to_level = Some ''quarter'', nav_filters = None\<rparr>
       = [''d.year'', ''d.quarter'']"
    using s[THEN conjunct2] unfolding t .
  have g: "''continent'' \<notin> {''region'', ''country''}" by simp
  note pg = drill_roll_level_resolution[of "''continent''" "Some ''geography''" None,
      THEN conjunct2, THEN conjunct2, THEN conjunct2, THEN conjunct2, THEN conjunct2,
      THEN conjunct2, THEN conjunct2, THEN conjunct2, THEN conjunct1, THEN mp, OF g]
  have b: "''brand'' \<notin> {''category'', ''subcategory''}" by simp
  note pb = drill_roll_level_resolution[of "''brand''" "Some ''product''" None,
      THEN conjunct2, THEN conjunct2, THEN conjunct2, THEN conjunct2, THEN conjunct2,
      THEN conjunct2, THEN conjunct2, THEN conjunct2, THEN conjunct2, THEN conjunct1,
      THEN mp, OF b]
  have ga: "''continent'' \<notin> set (levels (lookup_hierarchy (Some ''geography'')))"
    by (simp add: lookup_hierarchy_values)
  note rg = drill_roll_level_resolution[of "''continent''" "Some ''geography''" None,
      THEN conjunct1, THEN mp, OF ga]
  from rg have c5: "roll_up_group_cols \<lparr>hierarchy = Some ''geography'', to_level = Some ''continent'', nav_filters = None\<rparr>
       = [hd (columns (lookup_hierarchy (Some ''geography'')))]"
    by (rule conjunct2[THEN conjunct2, THEN conjunct2, THEN conjunct2, THEN conjunct1])
  show ?thesis
    by (rule conjI[OF a conjI[OF c1 conjI[OF c2 conjI[OF c3 conjI[OF c4
          conjI[OF pg[THEN conjunct1] conjI[OF pg[THEN conjunct2]
          conjI[OF pb[THEN conjunct1] conjI[OF pb[THEN conjunct2] c5]]]]]]]]])
qed



subsection \<open>Filter compilation\<close>

lemma nav_loop_unknown_key:
  "map_of nav_col_map k = None \<Longrightarrow>
   nav_filter_loop ((k, v) # rest) conditions params = nav_filter_loop rest conditions params"
  by simp

lemma cube_loop_unknown_key:
  "map_of cube_COL_MAP k = None \<Longrightarrow>
   cube_where_loop ((k, v) # rest) conditions params = cube_where_loop rest conditions params"
  by simp

lemma kpi_loop_unknown_key:
  "map_of kpi_COL_MAP k = None \<Longrightarrow>
   kpi_where_loop ((k, v) # rest) conditions params = kpi_where_loop rest conditions params"
  by simp

lemma nav_loop_drops_unknown:
  "nav_filter_loop filters conditions params
     = nav_filter_loop (filter (\<lambda>(k, v). map_of nav_col_map k \<noteq> None) filters) conditions params"
  by (induction filters conditions params rule: nav_filter_loop.induct)
     (auto split: option.splits pyval.splits)

lemma cube_loop_drops_unknown:
  "cube_where_loop filters conditions params
     = cube_where_loop (filter (\<lambda>(k, v). map_of cube_COL_MAP k \<noteq> None) filters) conditions params"
  by (induction filters conditions params rule: cube_where_loop.induct)
     (auto split: option.splits pyval.splits)

lemma kpi_loop_drops_unknown:
  "kpi_where_loop filters conditions params
     = kpi_where_loop (filter (\<lambda>(k, v). map_of kpi_COL_MAP k \<noteq> None) filters) conditions params"
  by (induction filters conditions params rule: kpi_where_loop.induct)
     (auto split: option.splits pyval.splits)

lemma placeholders_one_per_element:
  "length (filter (\<lambda>c. c = CHR ''?'') (placeholders n)) = n"
proof (induction n rule: less_induct)
  case (less n)
  show ?case
  proof (cases n)
    case 0
    then show ?thesis by (simp add: placeholders_def)
  next
    case (Suc m)
    show ?thesis
    proof (cases m)
      case 0
      with Suc show ?thesis by (simp add: placeholders_def)
    next
      case (Suc k)
      with \<open>n = Suc m\<close> less.IH[of m] show ?thesis
        by (simp add: placeholders_def)
    qed
  qed
qed

lemma cube_loop_list_value:
  assumes "map_of cube_COL_MAP k = Some col"
  shows "cube_where_loop [(k, PList vs)] conditions params
           = (conditions @ [col @ '' IN ('' @ placeholders (length vs) @ '')''], params @ vs)"
  using assms by simp

lemma cube_loop_range_value:
  assumes "map_of cube_COL_MAP k = Some col"
  shows "cube_where_loop [(k, PDict [(''gte'', v)])] conditions params
           = (conditions @ [col @ '' >= ?''], params @ [v])"
    and "cube_where_loop [(k, PDict [(''lte'', v)])] conditions params
           = (conditions @ [col @ '' <= ?''], params @ [v])"
  using assms by (simp_all add: dict_get_def)

lemma cube_loop_scalar_value:
  assumes "map_of cube_COL_MAP k = Some col"
  shows "cube_where_loop [(k, PInt i)] conditions params
           = (conditions @ [col @ '' = ?''], params @ [PInt i])"
    and "cube_where_loop [(k, PStr s)] conditions params
           = (conditions @ [col @ '' = ?''], params @ [PStr s])"
  using assms by simp_all

text \<open>
  Claim C8. The filter set \<open>{"year": {"gte": 2023}}\<close> holds a range object under a
  recognised key. \<open>_build_where\<close> of the cube operations compiles it to the one-sided
  inequality \<open>d.year >= ?\<close> with the bind 2023. \<open>_build_filter_clause\<close> of the
  dimension navigator and \<open>_build_where\<close> of the KPI calculator have no case for
  range objects: both compile it to the equality \<open>d.year = ?\<close> and bind the dict
  itself.
\<close>

theorem range_filter_compiled_as_equality:
  "build_filter_clause [(''year'', PDict [(''gte'', PInt 2023)])]
     = (''WHERE d.year = ?'', [PDict [(''gte'', PInt 2023)]])
   \<and> kpi_build_where [(''year'', PDict [(''gte'', PInt 2023)])]
     = (''WHERE d.year = ?'', [PDict [(''gte'', PInt 2023)]])
   \<and> cube_build_where [(''year'', PDict [(''gte'', PInt 2023)])]
     = (''WHERE d.year >= ?'', [PInt 2023])"
  by (simp add: build_filter_clause_def kpi_build_where_def cube_build_where_def
        nav_col_map_def kpi_COL_MAP_def cube_COL_MAP_def where_of_def dict_get_def)

subsection \<open>Operation dispatch\<close>

text \<open>
  Claim C4, as stated, fails: the KPI calculator given the operation name "bogus" runs
  its summary method and returns that method's output, whose error field is empty.
\<close>

theorem kpi_unknown_operation_counterexample:
  "KPICalculator_run example_kpi_methods
      \<lparr>operation = ''bogus'', parameters = PDict [], context = None\<rparr>
     = Inr (ok_output ''KPICalculator'' ''summary'')
   \<and> error (ok_output ''KPICalculator'' ''summary'') = None"
  by (simp add: KPICalculator_run_def example_kpi_methods_def ok_output_def kpi_dispatch_def
        py_lower_def lower_char_def dash_to_underscore_def)

text \<open>
  Claim C4, amended. An operation name outside the names that \<open>run\<close> tests gives an
  output with the error field populated and no data, without any method being run, in
  the dimension navigator and in the cube operations. The KPI calculator runs its
  overall summary instead, the report generator its executive summary, the anomaly
  detection its monthly anomaly method; the visualization agent never reads the
  operation name.
\<close>

theorem unknown_operation_outcomes:
  "(py_lower (operation inp) \<notin> {''drill_down'', ''drill-down'', ''roll_up'', ''roll-up'', ''group''} \<longrightarrow>
      DimensionNavigator_run nimpl inp =
        Inr (error_output ''DimensionNavigator'' (py_lower (operation inp))
               (''Unknown operation '' @ [CHR 0x27] @ py_lower (operation inp) @ [CHR 0x27]
                @ ''. Supported: drill_down, roll_up, group'')))
   \<and> (dash_to_underscore (py_lower (operation inp))
          \<notin> {''slice'', ''dice'', ''pivot'', ''drill_through''} \<longrightarrow>
      CubeOperations_run cimpl inp =
        Inr (error_output ''CubeOperations'' (dash_to_underscore (py_lower (operation inp)))
               (''Unknown op '' @ [CHR 0x27] @ dash_to_underscore (py_lower (operation inp))
                @ [CHR 0x27] @ ''. Supported: slice, dice, pivot, drill_through'')))
   \<and> error (error_output name oper msg) = Some msg
   \<and> data (error_output name oper msg) = None
   \<and> (dash_to_underscore (py_lower (operation inp)) \<notin> fst ` set kpi_dispatch \<longrightarrow>
      KPICalculator_run kimpl inp = kimpl Overall_summary (parameters inp) (context inp))
   \<and> (dash_to_underscore (py_lower (operation inp))
          \<notin> {''format_table'', ''table'', ''executive_summary'', ''summary'', ''narrative'',
              ''trend_report'', ''trend''} \<longrightarrow>
      ReportGenerator_run rimpl inp = rimpl Executive_summary (parameters inp) (context inp))
   \<and> (py_lower (operation inp)
          \<notin> {''time_anomaly'', ''monthly'', ''product_anomaly'', ''product''} \<longrightarrow>
      AnomalyDetection_run aimpl inp = aimpl Monthly_anomaly (parameters inp) (context inp))
   \<and> Visualization_run vimpl inp = vimpl Visualize (parameters inp) (context inp)"
proof -
  have nav: "py_lower (operation inp) \<notin> {''drill_down'', ''drill-down'', ''roll_up'', ''roll-up'', ''group''} \<longrightarrow>
      DimensionNavigator_run nimpl inp =
        Inr (error_output ''DimensionNavigator'' (py_lower (operation inp))
               (''Unknown operation '' @ [CHR 0x27] @ py_lower (operation inp) @ [CHR 0x27]
                @ ''. Supported: drill_down, roll_up, group''))"
    by (simp add: DimensionNavigator_run_def Let_def)
  have cube: "dash_to_underscore (py_lower (operation inp))
          \<notin> {''slice'', ''dice'', ''pivot'', ''drill_through''} \<longrightarrow>
      CubeOperations_run cimpl inp =
        Inr (error_output ''CubeOperations'' (dash_to_underscore (py_lower (operation inp)))
               (''Unknown op '' @ [CHR 0x27] @ dash_to_underscore (py_lower (operation inp))
                @ [CHR 0x27] @ ''. Supported: slice, dice, pivot, drill_through''))"
    by (simp add: CubeOperations_run_def Let_def)
  have err: "error (error_output name oper msg) = Some msg"
    "data (error_output name oper msg) = None"
    by (simp_all add: error_output_def)
  have kpi: "dash_to_underscore (py_lower (operation inp)) \<notin> fst ` set kpi_dispatch \<longrightarrow>
      KPICalculator_run kimpl inp = kimpl Overall_summary (parameters inp) (context inp)"
  proof
    assume "dash_to_underscore (py_lower (operation inp)) \<notin> fst ` set kpi_dispatch"
    then have "map_of kpi_dispatch (dash_to_underscore (py_lower (operation inp))) = None"
      by (simp add: map_of_eq_None_iff)
    then show "KPICalculator_run kimpl inp = kimpl Overall_summary (parameters inp) (context inp)"
      by (simp add: KPICalculator_run_def Let_def)
  qed
  have rep: "dash_to_underscore (py_lower (operation inp))
          \<notin> {''format_table'', ''table'', ''executive_summary'', ''summary'', ''narrative'',
              ''trend_report'', ''trend''} \<longrightarrow>
      ReportGenerator_run rimpl inp = rimpl Executive_summary (parameters inp) (context inp)"
    by (simp add: ReportGenerator_run_def Let_def)
  have ano: "py_lower (operation inp)
          \<notin> {''time_anomaly'', ''monthly'', ''product_anomaly'', ''product''} \<longrightarrow>
      AnomalyDetection_run aimpl inp = aimpl Monthly_anomaly (parameters inp) (context inp)"
    by (simp add: AnomalyDetection_run_def Let_def)
  have vis: "Visualization_run vimpl inp = vimpl Visualize (parameters inp) (context inp)"
    by (simp add: Visualization_run_def)
  show ?thesis
    by (rule conjI[OF nav conjI[OF cube conjI[OF err(1) conjI[OF err(2)
          conjI[OF kpi conjI[OF rep conjI[OF ano vis]]]]]]])
qed

lemma bogus_lower: "py_lower (operation bogus_input) = ''bogus-op''"
  unfolding bogus_input_def by code_simp

lemma bogus_norm: "dash_to_underscore (py_lower (operation bogus_input)) = ''bogus_op''"
  by (simp add: bogus_lower dash_to_underscore_def)

theorem unknown_operation_outcomes_witness:
  "py_lower (operation bogus_input)
      \<notin> {''drill_down'', ''drill-down'', ''roll_up'', ''roll-up'', ''group''}
   \<and> dash_to_underscore (py_lower (operation bogus_input))
      \<notin> {''slice'', ''dice'', ''pivot'', ''drill_through''}
   \<and> dash_to_underscore (py_lower (operation bogus_input)) \<notin> fst ` set kpi_dispatch
   \<and> dash_to_underscore (py_lower (operation bogus_input))
      \<notin> {''format_table'', ''table'', ''executive_summary'', ''summary'', ''narrative'',
          ''trend_report'', ''trend''}
   \<and> py_lower (operation bogus_input)
      \<notin> {''time_anomaly'', ''monthly'', ''product_anomaly'', ''product''}
   \<and> DimensionNavigator_run failing_methods bogus_input =
        Inr (error_output ''DimensionNavigator'' (py_lower (operation bogus_input))
               (''Unknown operation '' @ [CHR 0x27] @ py_lower (operation bogus_input) @ [CHR 0x27]
                @ ''. Supported: drill_down, roll_up, group''))
   \<and> CubeOperations_run failing_methods bogus_input =
        Inr (error_output ''CubeOperations'' (dash_to_underscore (py_lower (operation bogus_input)))
               (''Unknown op '' @ [CHR 0x27] @ dash_to_underscore (py_lower (operation bogus_input))
                @ [CHR 0x27] @ ''. Supported: slice, dice, pivot, drill_through''))
   \<and> KPICalculator_run example_kpi_methods bogus_input
        = example_kpi_methods Overall_summary (parameters bogus_input) (context bogus_input)
   \<and> ReportGenerator_run failing_methods bogus_input
        = failing_methods Executive_summary (parameters bogus_input) (context bogus_input)
   \<and> AnomalyDetection_run failing_methods bogus_input
        = failing_methods Monthly_anomaly (parameters bogus_input) (context bogus_input)"
proof -
  have h1: "py_lower (operation bogus_input)
      \<notin> {''drill_down'', ''drill-down'', ''roll_up'', ''roll-up'', ''group''}"
    by (simp add: bogus_lower)
  have h2: "dash_to_underscore (py_lower (operation bogus_input))
      \<notin> {''slice'', ''dice'', ''pivot'', ''drill_through''}"
    by (simp add: bogus_norm)
  have h3: "dash_to_underscore (py_lower (operation bogus_input)) \<notin> fst ` set kpi_dispatch"
    by (simp add: bogus_norm kpi_dispatch_def)
  have h4: "dash_to_underscore (py_lower (operation bogus_input))
      \<notin> {''format_table'', ''table'', ''executive_summary'', ''summary'', ''narrative'',
          ''trend_report'', ''trend''}"
    by (simp add: bogus_norm)
  have h5: "py_lower (operation bogus_input)
      \<notin> {''time_anomaly'', ''monthly'', ''product_anomaly'', ''product''}"
    by (simp add: bogus_lower)
  note r = unknown_operation_outcomes[of bogus_input failing_methods failing_methods
      _ _ _ example_kpi_methods failing_methods failing_methods failing_methods]
  have c1: "DimensionNavigator_run failing_methods bogus_input =
        Inr (error_output ''DimensionNavigator'' (py_lower (operation bogus_input))
               (''Unknown operation '' @ [CHR 0x27] @ py_lower (operation bogus_input) @ [CHR 0x27]
                @ ''. Supported: drill_down, roll_up, group''))"
    using r[THEN conjunct1] h1 by (rule mp)
  have c2: "CubeOperations_run failing_methods bogus_input =
        Inr (error_output ''CubeOperations'' (dash_to_underscore (py_lower (operation bogus_input)))
               (''Unknown op '' @ [CHR 0x27] @ dash_to_underscore (py_lower (operation bogus_input))
                @ [CHR 0x27] @ ''. Supported: slice, dice, pivot, drill_through''))"
    using r[THEN conjunct2, THEN conjunct1] h2 by (rule mp)
  have c3: "KPICalculator_run example_kpi_methods bogus_input
        = example_kpi_methods Overall_summary (parameters bogus_input) (context bogus_input)"
    using r[THEN conjunct2, THEN conjunct2, THEN conjunct2, THEN conjunct2, THEN conjunct1] h3
    by (rule mp)
  have c4: "ReportGenerator_run failing_methods bogus_input
        = failing_methods Executive_summary (parameters bogus_input) (context bogus_input)"
    using r[THEN conjunct2, THEN conjunct2, THEN conjunct2, THEN conjunct2, THEN conjunct2,
        THEN conjunct1] h4
    by (rule mp)
  have c5: "AnomalyDetection_run failing_methods bogus_input
        = failing_methods Monthly_anomaly (parameters bogus_input) (context bogus_input)"
    using r[THEN conjunct2, THEN conjunct2, THEN conjunct2, THEN conjunct2, THEN conjunct2,
        THEN conjunct2, THEN conjunct1] h5
    by (rule mp)
  show ?thesis
    by (rule conjI[OF h1 conjI[OF h2 conjI[OF h3 conjI[OF h4 conjI[OF h5
          conjI[OF c1 conjI[OF c2 conjI[OF c3 conjI[OF c4 c5]]]]]]]]])
qed

subsection \<open>Grouping dimensions\<close>

lemma nav_group_col_unmapped:
  "d \<notin> fst ` set nav_col_map \<Longrightarrow> nav_group_col d = ''d.'' @ d"
  by (simp add: nav_group_col_def map_of_eq_None_iff[THEN iffD2])

lemma cube_group_col_unmapped:
  "d \<notin> fst ` set cube_COL_MAP \<Longrightarrow> cube_group_col d = d"
  by (simp add: cube_group_col_def map_of_eq_None_iff[THEN iffD2])

lemma group_by_query_shape:
  "\<exists>w ps. group_by_query \<lparr>dimensions = Some ds, group_filters = fs\<rparr>
     = (Sql_template ''_base_query''
          [join '', '' (map nav_group_col ds), w, join '', '' (map nav_group_col ds)], ps)"
  by (cases "build_filter_clause (case fs of None \<Rightarrow> [] | Some f \<Rightarrow> f)")
     (simp add: group_by_query_def base_query_def Let_def)

lemma slice_query_shape:
  "\<exists>w ps. slice_query \<lparr>cube_filters = fs, cube_group_by = Some ds\<rparr>
     = (Sql_template ''_slice''
          [join '', '' (map cube_group_col ds), w, join '', '' (map cube_group_col ds)], ps)"
  by (cases "cube_build_where (case fs of None \<Rightarrow> [] | Some f \<Rightarrow> f)")
     (simp add: slice_query_def Let_def)

lemma dice_query_shape:
  "\<exists>w ps. dice_query \<lparr>cube_filters = fs, cube_group_by = Some ds\<rparr>
     = (Sql_template ''_dice''
          [join '', '' (map cube_group_col ds), w, join '', '' (map cube_group_col ds)], ps)"
  by (cases "cube_build_where (case fs of None \<Rightarrow> [] | Some f \<Rightarrow> f)")
     (simp add: dice_query_def Let_def)

lemma group_by_outcome:
  assumes "group_by_query p = (q, ps)"
  shows "db q ps = Inl e \<longrightarrow> group_by db fmt p = Inl e"
    and "db q ps = Inr df \<and> ''total_revenue'' \<in> set (frame_columns df) \<longrightarrow>
           (\<exists>out. group_by db fmt p = Inr out \<and> sql out = q \<and> data out = Some df
                 \<and> error out = None)"
  using assms by (simp_all add: group_by_def Let_def frame_column_def)

lemma slice_outcome:
  assumes "slice_query p = (q, ps)"
  shows "db q ps = Inl e \<longrightarrow> slice db fmt p = Inl e"
    and "db q ps = Inr df \<and> ''total_revenue'' \<in> set (frame_columns df) \<longrightarrow>
           (\<exists>out. slice db fmt p = Inr out \<and> sql out = q \<and> data out = Some df
                 \<and> error out = None)"
  using assms by (simp_all add: slice_def Let_def frame_column_def)

lemma map_of_tabulate:
  "c \<in> set cols \<Longrightarrow> map_of (map (\<lambda>c. (c, f c)) cols) c = Some (f c)"
  by (induction cols) auto

lemma iloc0_column:
  "c \<in> set (frame_columns df) \<Longrightarrow> \<exists>v. map_of (iloc0 df) c = Some v"
  unfolding iloc0_def Let_def by (simp only: map_of_tabulate) simp

lemma dice_outcome:
  assumes "dice_query p = (q, ps)"
  shows "db q ps = Inl e \<longrightarrow> dice db fmt p = Inl e"
    and "db q ps = Inr df \<and> (frame_empty df \<or> ''total_revenue'' \<in> set (frame_columns df)) \<longrightarrow>
           (\<exists>out. dice db fmt p = Inr out \<and> sql out = q \<and> data out = Some df
                 \<and> error out = None)"
proof -
  show "db q ps = Inl e \<longrightarrow> dice db fmt p = Inl e"
    using assms by (simp add: dice_def Let_def)
  show "db q ps = Inr df \<and> (frame_empty df \<or> ''total_revenue'' \<in> set (frame_columns df)) \<longrightarrow>
           (\<exists>out. dice db fmt p = Inr out \<and> sql out = q \<and> data out = Some df
                 \<and> error out = None)"
  proof
    assume h: "db q ps = Inr df \<and> (frame_empty df \<or> ''total_revenue'' \<in> set (frame_columns df))"
    show "\<exists>out. dice db fmt p = Inr out \<and> sql out = q \<and> data out = Some df \<and> error out = None"
    proof (cases "frame_empty df")
      case True
      with h assms show ?thesis by (simp add: dice_def Let_def)
    next
      case False
      with h have "''total_revenue'' \<in> set (frame_columns df)" by simp
      from iloc0_column[OF this] obtain v
        where "map_of (iloc0 df) ''total_revenue'' = Some v" ..
      with h assms False show ?thesis by (simp add: dice_def Let_def)
    qed
  qed
qed

lemma dice_empty_result:
  assumes "(case dice_query p of (q, ps) \<Rightarrow> db q ps) = Inr []"
  shows "\<exists>out. dice db fmt p = Inr out \<and> data out = Some [] \<and> error out = None"
  using assms
  by (auto simp: dice_def Let_def frame_empty_def split: prod.splits)

text \<open>
  Claim C3, as stated, fails: \<open>week_of_year\<close> is not in the dimension catalog, yet a
  group request for it is not rejected. The query groups by the column
  \<open>d.week_of_year\<close>, and on a storage that answers with a row the outcome is an
  output without error.
\<close>

theorem unmapped_dimension_counterexample:
  "''week_of_year'' \<notin> fst ` set nav_col_map
   \<and> group_by example_storage example_formatter
        \<lparr>dimensions = Some [''week_of_year''], group_filters = None\<rparr>
     = Inr \<lparr>agent = ''DimensionNavigator'', out_operation = ''group'',
            sql = Sql_template ''_base_query'' [''d.week_of_year'', [], ''d.week_of_year''],
            data = Some [[(''week_of_year'', PInt 1), (''total_revenue'', PFloat 10)]],
            summary = ''Grouped by [week_of_year]. # groups. Total revenue: $#'',
            error = None,
            metadata = [(''dimensions'', PList [PStr ''week_of_year''])]\<rparr>"
  by (simp add: group_by_def group_by_query_def build_filter_clause_def where_of_def
        base_query_def nav_group_col_def nav_col_map_def example_storage_def
        example_formatter_def frame_column_def frame_columns_def Let_def)

text \<open>
  Claim C3, amended. A grouping dimension outside the catalog is not rejected: it is
  passed on as the column \<open>d.<name>\<close> by \<open>_group_by\<close> and verbatim by \<open>_slice\<close> and
  \<open>_dice\<close>, and the SELECT list and the GROUP BY clause of the query are the columns
  of the requested dimensions, joined by commas in the order of the request. The
  outcome is that of storage: an exception raised for the query is passed on, and a
  result with rows, which has the column \<open>total_revenue\<close>, is returned in an output
  without error. For \<open>_dice\<close>, a result without rows is an output without error that
  holds zero rows.
\<close>

theorem grouping_dimensions_pass_through:
  "(d \<notin> fst ` set nav_col_map \<longrightarrow> nav_group_col d = ''d.'' @ d)
   \<and> (d \<notin> fst ` set cube_COL_MAP \<longrightarrow> cube_group_col d = d)
   \<and> (\<exists>w ps. group_by_query \<lparr>dimensions = Some ds, group_filters = fs\<rparr>
         = (Sql_template ''_base_query''
              [join '', '' (map nav_group_col ds), w, join '', '' (map nav_group_col ds)], ps))
   \<and> (\<exists>w ps. slice_query \<lparr>cube_filters = fs, cube_group_by = Some ds\<rparr>
         = (Sql_template ''_slice''
              [join '', '' (map cube_group_col ds), w, join '', '' (map cube_group_col ds)], ps))
   \<and> (\<exists>w ps. dice_query \<lparr>cube_filters = fs, cube_group_by = Some ds\<rparr>
         = (Sql_template ''_dice''
              [join '', '' (map cube_group_col ds), w, join '', '' (map cube_group_col ds)], ps))
   \<and> (case group_by_query gp of (q, ps) \<Rightarrow>
         (db q ps = Inl e \<longrightarrow> group_by db fmt gp = Inl e)
       \<and> (db q ps = Inr df \<and> ''total_revenue'' \<in> set (frame_columns df) \<longrightarrow>
            (\<exists>out. group_by db fmt gp = Inr out \<and> sql out = q \<and> data out = Some df
                  \<and> error out = None)))
   \<and> (case slice_query cp of (q, ps) \<Rightarrow>
         (db q ps = Inl e \<longrightarrow> slice db fmt cp = Inl e)
       \<and> (db q ps = Inr df \<and> ''total_revenue'' \<in> set (frame_columns df) \<longrightarrow>
            (\<exists>out. slice db fmt cp = Inr out \<and> sql out = q \<and> data out = Some df
                  \<and> error out = None)))
   \<and> (case dice_query cp of (q, ps) \<Rightarrow>
         (db q ps = Inl e \<longrightarrow> dice db fmt cp = Inl e)
       \<and> (db q ps = Inr df \<and> (frame_empty df \<or> ''total_revenue'' \<in> set (frame_columns df)) \<longrightarrow>
            (\<exists>out. dice db fmt cp = Inr out \<and> sql out = q \<and> data out = Some df
                  \<and> error out = None)))
   \<and> ((case dice_query cp of (q, ps) \<Rightarrow> db q ps) = Inr [] \<longrightarrow>
         (\<exists>out. dice db fmt cp = Inr out \<and> data out = Some [] \<and> error out = None))"
proof -
  have a: "d \<notin> fst ` set nav_col_map \<longrightarrow> nav_group_col d = ''d.'' @ d"
    by (rule impI) (erule nav_group_col_unmapped)
  have b: "d \<notin> fst ` set cube_COL_MAP \<longrightarrow> cube_group_col d = d"
    by (rule impI) (erule cube_group_col_unmapped)
  obtain q1 ps1 where q1: "group_by_query gp = (q1, ps1)" by (cases "group_by_query gp")
  obtain q2 ps2 where q2: "slice_query cp = (q2, ps2)" by (cases "slice_query cp")
  obtain q3 ps3 where q3: "dice_query cp = (q3, ps3)" by (cases "dice_query cp")
  have f: "case group_by_query gp of (q, ps) \<Rightarrow>
         (db q ps = Inl e \<longrightarrow> group_by db fmt gp = Inl e)
       \<and> (db q ps = Inr df \<and> ''total_revenue'' \<in> set (frame_columns df) \<longrightarrow>
            (\<exists>out. group_by db fmt gp = Inr out \<and> sql out = q \<and> data out = Some df
                  \<and> error out = None))"
    unfolding q1 prod.case by (rule conjI[OF group_by_outcome(1)[OF q1] group_by_outcome(2)[OF q1]])
  have g: "case slice_query cp of (q, ps) \<Rightarrow>
         (db q ps = Inl e \<longrightarrow> slice db fmt cp = Inl e)
       \<and> (db q ps = Inr df \<and> ''total_revenue'' \<in> set (frame_columns df) \<longrightarrow>
            (\<exists>out. slice db fmt cp = Inr out \<and> sql out = q \<and> data out = Some df
                  \<and> error out = None))"
    unfolding q2 prod.case by (rule conjI[OF slice_outcome(1)[OF q2] slice_outcome(2)[OF q2]])
  have h: "case dice_query cp of (q, ps) \<Rightarrow>
         (db q ps = Inl e \<longrightarrow> dice db fmt cp = Inl e)
       \<and> (db q ps = Inr df \<and> (frame_empty df \<or> ''total_revenue'' \<in> set (frame_columns df)) \<longrightarrow>
            (\<exists>out. dice db fmt cp = Inr out \<and> sql out = q \<and> data out = Some df
                  \<and> error out = None))"
    unfolding q3 prod.case by (rule conjI[OF dice_outcome(1)[OF q3] dice_outcome(2)[OF q3]])
  have i: "(case dice_query cp of (q, ps) \<Rightarrow> db q ps) = Inr [] \<longrightarrow>
         (\<exists>out. dice db fmt cp = Inr out \<and> data out = Some [] \<and> error out = None)"
    by (rule impI) (erule dice_empty_result)
  show ?thesis
    by (rule conjI[OF a conjI[OF b conjI[OF group_by_query_shape conjI[OF slice_query_shape
          conjI[OF dice_query_shape conjI[OF f conjI[OF g conjI[OF h i]]]]]]]])
qed

lemma example_queries:
  "group_by_query \<lparr>dimensions = Some [''week_of_year''], group_filters = None\<rparr>
     = (Sql_template ''_base_query'' [''d.week_of_year'', [], ''d.week_of_year''], [])"
  "slice_query \<lparr>cube_filters = None, cube_group_by = Some [''week_of_year'']\<rparr>
     = (Sql_template ''_slice'' [''week_of_year'', [], ''week_of_year''], [])"
  "dice_query \<lparr>cube_filters = None, cube_group_by = Some [''week_of_year'']\<rparr>
     = (Sql_template ''_dice'' [''week_of_year'', [], ''week_of_year''], [])"
  by (simp_all add: group_by_query_def slice_query_def dice_query_def base_query_def
        build_filter_clause_def cube_build_where_def where_of_def nav_group_col_def
        cube_group_col_def nav_col_map_def cube_COL_MAP_def Let_def)

lemma example_frame_has_revenue:
  "''total_revenue''
     \<in> set (frame_columns [[(''week_of_year'', PInt 1), (''total_revenue'', PFloat 10)]])"
  by (simp add: frame_columns_def)

theorem grouping_dimensions_pass_through_witness:
  "''week_of_year'' \<notin> fst ` set nav_col_map
   \<and> nav_group_col ''week_of_year'' = ''d.'' @ ''week_of_year''
   \<and> ''week_of_year'' \<notin> fst ` set cube_COL_MAP
   \<and> cube_group_col ''week_of_year'' = ''week_of_year''
   \<and> group_by failing_storage example_formatter
        \<lparr>dimensions = Some [''week_of_year''], group_filters = None\<rparr>
       = Inl ''OperationalError: no such column: d.week_of_year''
   \<and> (\<exists>out. group_by example_storage example_formatter
               \<lparr>dimensions = Some [''week_of_year''], group_filters = None\<rparr> = Inr out
          \<and> sql out = Sql_template ''_base_query'' [''d.week_of_year'', [], ''d.week_of_year'']
          \<and> data out = Some [[(''week_of_year'', PInt 1), (''total_revenue'', PFloat 10)]]
          \<and> error out = None)
   \<and> slice failing_storage example_formatter
        \<lparr>cube_filters = None, cube_group_by = Some [''week_of_year'']\<rparr>
       = Inl ''OperationalError: no such column: d.week_of_year''
   \<and> (\<exists>out. slice example_storage example_formatter
               \<lparr>cube_filters = None, cube_group_by = Some [''week_of_year'']\<rparr> = Inr out
          \<and> sql out = Sql_template ''_slice'' [''week_of_year'', [], ''week_of_year'']
          \<and> data out = Some [[(''week_of_year'', PInt 1), (''total_revenue'', PFloat 10)]]
          \<and> error out = None)
   \<and> dice failing_storage example_formatter
        \<lparr>cube_filters = None, cube_group_by = Some [''week_of_year'']\<rparr>
       = Inl ''OperationalError: no such column: d.week_of_year''
   \<and> (\<exists>out. dice example_storage example_formatter
               \<lparr>cube_filters = None, cube_group_by = Some [''week_of_year'']\<rparr> = Inr out
          \<and> sql out = Sql_template ''_dice'' [''week_of_year'', [], ''week_of_year'']
          \<and> data out = Some [[(''week_of_year'', PInt 1), (''total_revenue'', PFloat 10)]]
          \<and> error out = None)
   \<and> (\<exists>out. dice empty_storage example_formatter
               \<lparr>cube_filters = None, cube_group_by = Some [''week_of_year'']\<rparr> = Inr out
          \<and> data out = Some [] \<and> error out = None)"
proof -
  let ?gp = "\<lparr>dimensions = Some [''week_of_year''], group_filters = None\<rparr>"
  let ?cp = "\<lparr>cube_filters = None, cube_group_by = Some [''week_of_year'']\<rparr>"
  let ?df = "[[(''week_of_year'', PInt 1), (''total_revenue'', PFloat 10)]]"
  let ?e = "''OperationalError: no such column: d.week_of_year''"
  have h1: "''week_of_year'' \<notin> fst ` set nav_col_map"
    by (simp add: nav_col_map_def)
  have h2: "''week_of_year'' \<notin> fst ` set cube_COL_MAP"
    by (simp add: cube_COL_MAP_def)
  have bad: "failing_storage q ps = Inl ?e" for q ps
    by (simp add: failing_storage_def)
  have good: "example_storage q ps = Inr ?df \<and> ''total_revenue'' \<in> set (frame_columns ?df)" for q ps
    using example_frame_has_revenue by (simp add: example_storage_def)
  have good': "example_storage q ps = Inr ?df
      \<and> (frame_empty ?df \<or> ''total_revenue'' \<in> set (frame_columns ?df))" for q ps
    using example_frame_has_revenue by (simp add: example_storage_def)
  have none: "(case dice_query ?cp of (q, ps) \<Rightarrow> empty_storage q ps) = Inr []"
    by (simp add: empty_storage_def split: prod.splits)
  note r = grouping_dimensions_pass_through[where d = "''week_of_year''"
      and db = failing_storage and fmt = example_formatter and gp = ?gp and cp = ?cp
      and e = ?e]
  note s = grouping_dimensions_pass_through[where db = example_storage
      and fmt = example_formatter and gp = ?gp and cp = ?cp and df = ?df]
  note t = grouping_dimensions_pass_through[where db = empty_storage
      and fmt = example_formatter and cp = ?cp]
  note r6 = r[THEN conjunct2, THEN conjunct2, THEN conjunct2, THEN conjunct2, THEN conjunct2,
      THEN conjunct1, unfolded example_queries prod.case]
  note r7 = r[THEN conjunct2, THEN conjunct2, THEN conjunct2, THEN conjunct2, THEN conjunct2,
      THEN conjunct2, THEN conjunct1, unfolded example_queries prod.case]
  note r8 = r[THEN conjunct2, THEN conjunct2, THEN conjunct2, THEN conjunct2, THEN conjunct2,
      THEN conjunct2, THEN conjunct2, THEN conjunct1, unfolded example_queries prod.case]
  note s6 = s[THEN conjunct2, THEN conjunct2, THEN conjunct2, THEN conjunct2, THEN conjunct2,
      THEN conjunct1, unfolded example_queries prod.case]
  note s7 = s[THEN conjunct2, THEN conjunct2, THEN conjunct2, THEN conjunct2, THEN conjunct2,
      THEN conjunct2, THEN conjunct1, unfolded example_queries prod.case]
  note s8 = s[THEN conjunct2, THEN conjunct2, THEN conjunct2, THEN conjunct2, THEN conjunct2,
      THEN conjunct2, THEN conjunct2, THEN conjunct1, unfolded example_queries prod.case]
  have c1: "nav_group_col ''week_of_year'' = ''d.'' @ ''week_of_year''"
    using r[THEN conjunct1] h1 by (rule mp)
  have c2: "cube_group_col ''week_of_year'' = ''week_of_year''"
    using r[THEN conjunct2, THEN conjunct1] h2 by (rule mp)
  have c3: "group_by failing_storage example_formatter ?gp = Inl ?e"
    using r6[THEN conjunct1] bad by (rule mp)
  have c4: "\<exists>out. group_by example_storage example_formatter ?gp = Inr out
          \<and> sql out = Sql_template ''_base_query'' [''d.week_of_year'', [], ''d.week_of_year'']
          \<and> data out = Some ?df \<and> error out = None"
    using s6[THEN conjunct2] good by (rule mp)
  have c5: "slice failing_storage example_formatter ?cp = Inl ?e"
    using r7[THEN conjunct1] bad by (rule mp)
  have c6: "\<exists>out. slice example_storage example_formatter ?cp = Inr out
          \<and> sql out = Sql_template ''_slice'' [''week_of_year'', [], ''week_of_year'']
          \<and> data out = Some ?df \<and> error out = None"
    using s7[THEN conjunct2] good by (rule mp)
  have c7: "dice failing_storage example_formatter ?cp = Inl ?e"
    using r8[THEN conjunct1] bad by (rule mp)
  have c8: "\<exists>out. dice example_storage example_formatter ?cp = Inr out
          \<and> sql out = Sql_template ''_dice'' [''week_of_year'', [], ''week_of_year'']
          \<and> data out = Some ?df \<and> error out = None"
    using s8[THEN conjunct2] good' by (rule mp)
  have c9: "\<exists>out. dice empty_storage example_formatter ?cp = Inr out
          \<and> data out = Some [] \<and> error out = None"
    using t[THEN conjunct2, THEN conjunct2, THEN conjunct2, THEN conjunct2, THEN conjunct2,
        THEN conjunct2, THEN conjunct2, THEN conjunct2] none
    by (rule mp)
  show ?thesis
    by (rule conjI[OF h1 conjI[OF c1 conjI[OF h2 conjI[OF c2 conjI[OF c3 conjI[OF c4
          conjI[OF c5 conjI[OF c6 conjI[OF c7 conjI[OF c8 c9]]]]]]]]]])
qed

text \<open>
  \<open>df.iloc[0]\<close> of a frame with numeric columns only, one of them a float column: the
  year 2024 is read as the float 2024.0, and that is what the summary of \<open>_dice\<close>
  formats as the leader.
\<close>

lemma iloc0_numeric_frame:
  "iloc0 [[(''year'', PInt 2024), (''total_revenue'', PFloat 10)]]
     = [(''year'', PFloat 2024), (''total_revenue'', PFloat 10)]"
  by (simp add: iloc0_def frame_columns_def column_dtype_def cell_def Let_def fl_numeral)

lemma iloc0_labelled_frame:
  "iloc0 [[(''region'', PStr ''Europe''), (''total_qty'', PInt 3), (''total_revenue'', PFloat 10)]]
     = [(''region'', PStr ''Europe''), (''total_qty'', PInt 3), (''total_revenue'', PFloat 10)]"
  by (simp add: iloc0_def frame_columns_def column_dtype_def cell_def Let_def)

lemma dice_numeric_leader:
  "map_sum id summary
     (dice yearly_storage (\<lambda>spec v. if v = PFloat 2024 then ''2024.0'' else ''#'')
        \<lparr>cube_filters = None, cube_group_by = Some [''year'']\<rparr>)
     = Inr ''Dice with filters [], grouped by #. # results. Leader: 2024.0 ($#)''"
  by (simp add: dice_def dice_query_def cube_build_where_def where_of_def yearly_storage_def
        frame_empty_def iloc0_numeric_frame filter_desc_def Let_def)
     (simp add: frame_columns_def)

text \<open>
  A result without rows is a frame without columns: \<open>_group_by\<close> and \<open>_slice\<close> read
  \<open>df['total_revenue']\<close> without a guard and raise KeyError on it.
\<close>

lemma group_by_empty_raises:
  "group_by empty_storage example_formatter \<lparr>dimensions = None, group_filters = None\<rparr>
     = Inl ''KeyError: total_revenue''"
  by (simp add: group_by_def group_by_query_def build_filter_clause_def base_query_def
        empty_storage_def frame_column_def frame_columns_def Let_def)

lemma slice_empty_raises:
  "slice empty_storage example_formatter \<lparr>cube_filters = None, cube_group_by = None\<rparr>
     = Inl ''KeyError: total_revenue''"
  by (simp add: slice_def slice_query_def cube_build_where_def
        empty_storage_def frame_column_def frame_columns_def Let_def)

subsection \<open>Plan executor\<close>

lemma execute_steps_acc:
  "execute_steps agents q ss outs led =
     (outs @ map (\<lambda>s. run_guarded (the (agents (step_agent s))) q s)
               (filter (\<lambda>s. agents (step_agent s) \<noteq> None) ss),
      led @ map (\<lambda>s. ledger_of s (run_guarded (the (agents (step_agent s))) q s))
               (filter (\<lambda>s. agents (step_agent s) \<noteq> None) ss))"
  by (induction ss arbitrary: outs led) (auto simp: Let_def split: option.splits)

lemma map_filter_by_index:
  "map f (filter P xs) = map (\<lambda>i. f (xs ! i)) (filter (\<lambda>i. P (xs ! i)) [0..<length xs])"
proof (induction xs rule: rev_induct)
  case Nil
  then show ?case by simp
next
  case (snoc x xs)
  have "filter (\<lambda>i. P ((xs @ [x]) ! i)) [0..<length xs] = filter (\<lambda>i. P (xs ! i)) [0..<length xs]"
    by (rule filter_cong) (auto simp: nth_append)
  moreover have "map (\<lambda>i. f ((xs @ [x]) ! i)) (filter (\<lambda>i. P (xs ! i)) [0..<length xs])
      = map (\<lambda>i. f (xs ! i)) (filter (\<lambda>i. P (xs ! i)) [0..<length xs])"
    by (rule map_cong) (auto simp: nth_append)
  ultimately show ?case using snoc by simp
qed

lemma run_guarded_Inl:
  "agent_run \<lparr>operation = step_operation s, parameters = step_parameters s,
              context = Some q\<rparr> = Inl e \<Longrightarrow>
   run_guarded agent_run q s =
     \<lparr>agent = step_agent s, out_operation = step_operation s, sql = Sql_literal [],
      data = None, summary = [], error = Some e, metadata = []\<rparr>"
  by (simp add: run_guarded_def)

lemma run_guarded_Inr:
  "agent_run \<lparr>operation = step_operation s, parameters = step_parameters s,
              context = Some q\<rparr> = Inr out \<Longrightarrow>
   run_guarded agent_run q s = out"
  by (simp add: run_guarded_def)

lemma in_narrative_run_guarded:
  assumes "\<forall>out. agent_run \<lparr>operation = step_operation s, parameters = step_parameters s,
              context = Some q\<rparr> = Inr out \<longrightarrow> error out \<noteq> Some []"
  shows "in_narrative (run_guarded agent_run q s)
         \<longleftrightarrow> success (ledger_of s (run_guarded agent_run q s))
             \<and> summary (run_guarded agent_run q s) \<noteq> []"
proof (cases "agent_run \<lparr>operation = step_operation s, parameters = step_parameters s,
              context = Some q\<rparr>")
  case (Inl e)
  then show ?thesis
    by (simp add: run_guarded_Inl in_narrative_def)
next
  case (Inr out)
  with assms have "error out \<noteq> Some []" by simp
  with Inr show ?thesis
    by (auto simp: run_guarded_Inr in_narrative_def ledger_of_def)
qed

text \<open>
  Claim C1. The executor runs the steps whose agent name is in the registry, in plan
  order; \<open>rs\<close> is that list. An exception raised by the \<open>run\<close> of step \<open>i\<close> becomes
  the failed output of that step (error set to the message, no data, empty summary)
  and its ledger entry has \<open>success = False\<close>; every later step still runs, and a step
  whose output carries no error has \<open>success = True\<close>. The narrative joins, in plan
  order, the non-empty summaries of exactly the steps that the ledger marks successful,
  and it is "No results generated." when there is none. The agents of the repository
  never return an output whose error is the empty string; that is the hypothesis.
\<close>

theorem process_isolates_step_failures:
  fixes agents :: registry and plan :: Plan and user_query :: string
    and history :: "(string \<times> string) list"
  defines "rs \<equiv> filter (\<lambda>s. agents (step_agent s) \<noteq> None) (steps plan)"
  defines "call \<equiv> \<lambda>s. the (agents (step_agent s))
                        \<lparr>operation = step_operation s, parameters = step_parameters s,
                         context = Some user_query\<rparr>"
  defines "r \<equiv> fst (process agents plan user_query history)"
  assumes no_empty_error: "\<forall>s \<in> set rs. \<forall>out. call s = Inr out \<longrightarrow> error out \<noteq> Some []"
  shows "length (outputs r) = length rs \<and> length (steps_executed r) = length rs
       \<and> (\<forall>i < length rs.
            (\<forall>e. call (rs ! i) = Inl e \<longrightarrow>
                 outputs r ! i =
                   \<lparr>agent = step_agent (rs ! i), out_operation = step_operation (rs ! i),
                    sql = Sql_literal [], data = None, summary = [], error = Some e,
                    metadata = []\<rparr>
               \<and> \<not> success (steps_executed r ! i)
               \<and> row_count (steps_executed r ! i) = 0)
          \<and> (\<forall>out. call (rs ! i) = Inr out \<longrightarrow>
                 outputs r ! i = out
               \<and> success (steps_executed r ! i) = (error out = None)))
       \<and> narrative r =
           (let summaries =
                  map (\<lambda>i. summary (outputs r ! i))
                    (filter (\<lambda>i. success (steps_executed r ! i) \<and> summary (outputs r ! i) \<noteq> [])
                       [0..<length rs])
            in if summaries = [] then ''No results generated.''
               else join [CHR 0x0A, CHR 0x0A] summaries)"
proof -
  define g where "g = (\<lambda>s. run_guarded (the (agents (step_agent s))) user_query s)"
  have ex: "execute_steps agents user_query (steps plan) [] []
            = (map g rs, map (\<lambda>s. ledger_of s (g s)) rs)"
    by (simp add: execute_steps_acc rs_def g_def)
  have outs: "outputs r = map g rs"
    and led: "steps_executed r = map (\<lambda>s. ledger_of s (g s)) rs"
    and nar: "narrative r = build_narrative (map g rs)"
    by (simp_all add: r_def process_def ex Let_def)
  have len: "length (outputs r) = length rs \<and> length (steps_executed r) = length rs"
    by (simp add: outs led)
  have steps: "\<forall>i < length rs.
            (\<forall>e. call (rs ! i) = Inl e \<longrightarrow>
                 outputs r ! i =
                   \<lparr>agent = step_agent (rs ! i), out_operation = step_operation (rs ! i),
                    sql = Sql_literal [], data = None, summary = [], error = Some e,
                    metadata = []\<rparr>
               \<and> \<not> success (steps_executed r ! i)
               \<and> row_count (steps_executed r ! i) = 0)
          \<and> (\<forall>out. call (rs ! i) = Inr out \<longrightarrow>
                 outputs r ! i = out
               \<and> success (steps_executed r ! i) = (error out = None))"
  proof (intro allI impI conjI)
    fix i e assume i: "i < length rs" and c: "call (rs ! i) = Inl e"
    have gi: "g (rs ! i) = \<lparr>agent = step_agent (rs ! i), out_operation = step_operation (rs ! i),
                    sql = Sql_literal [], data = None, summary = [], error = Some e,
                    metadata = []\<rparr>"
      unfolding g_def using c by (intro run_guarded_Inl) (simp add: call_def)
    show "outputs r ! i = \<lparr>agent = step_agent (rs ! i), out_operation = step_operation (rs ! i),
                    sql = Sql_literal [], data = None, summary = [], error = Some e,
                    metadata = []\<rparr>"
      using i gi by (simp add: outs)
    show "\<not> success (steps_executed r ! i)"
      using i gi by (simp add: led ledger_of_def)
    show "row_count (steps_executed r ! i) = 0"
      using i gi by (simp add: led ledger_of_def)
  next
    fix i out assume i: "i < length rs" and c: "call (rs ! i) = Inr out"
    have gi: "g (rs ! i) = out"
      unfolding g_def using c by (intro run_guarded_Inr) (simp add: call_def)
    show "outputs r ! i = out"
      using i gi by (simp add: outs)
    show "success (steps_executed r ! i) = (error out = None)"
      using i gi by (simp add: led ledger_of_def)
  qed
  have narr_eq: "in_narrative (g s) \<longleftrightarrow> success (ledger_of s (g s)) \<and> summary (g s) \<noteq> []"
    if "s \<in> set rs" for s
    unfolding g_def
    using no_empty_error that by (intro in_narrative_run_guarded) (simp add: call_def)
  have f1: "filter in_narrative (map g rs)
            = map g (filter (\<lambda>s. success (ledger_of s (g s)) \<and> summary (g s) \<noteq> []) rs)"
    unfolding filter_map o_def
    by (rule arg_cong[where f = "map g"], rule filter_cong) (simp_all add: narr_eq)
  have f2: "map summary (filter in_narrative (map g rs))
            = map (\<lambda>s. summary (g s))
                (filter (\<lambda>s. success (ledger_of s (g s)) \<and> summary (g s) \<noteq> []) rs)"
    by (simp add: f1 o_def)
  have f3: "map (\<lambda>s. summary (g s))
                (filter (\<lambda>s. success (ledger_of s (g s)) \<and> summary (g s) \<noteq> []) rs)
            = map (\<lambda>i. summary (g (rs ! i)))
                (filter (\<lambda>i. success (ledger_of (rs ! i) (g (rs ! i))) \<and> summary (g (rs ! i)) \<noteq> [])
                   [0..<length rs])"
    by (rule map_filter_by_index)
  have f4: "map (\<lambda>i. summary (g (rs ! i)))
                (filter (\<lambda>i. success (ledger_of (rs ! i) (g (rs ! i))) \<and> summary (g (rs ! i)) \<noteq> [])
                   [0..<length rs])
          = map (\<lambda>i. summary (outputs r ! i))
                (filter (\<lambda>i. success (steps_executed r ! i) \<and> summary (outputs r ! i) \<noteq> [])
                   [0..<length rs])"
  proof -
    have a: "filter (\<lambda>i. success (ledger_of (rs ! i) (g (rs ! i))) \<and> summary (g (rs ! i)) \<noteq> [])
                   [0..<length rs]
             = filter (\<lambda>i. success (steps_executed r ! i) \<and> summary (outputs r ! i) \<noteq> [])
                   [0..<length rs]"
      by (rule filter_cong) (simp_all add: outs led)
    show ?thesis
      unfolding a by (rule map_cong) (simp_all add: outs)
  qed
  have narr: "narrative r =
           (let summaries =
                  map (\<lambda>i. summary (outputs r ! i))
                    (filter (\<lambda>i. success (steps_executed r ! i) \<and> summary (outputs r ! i) \<noteq> [])
                       [0..<length rs])
            in if summaries = [] then ''No results generated.''
               else join [CHR 0x0A, CHR 0x0A] summaries)"
    unfolding nar build_narrative_def f2 f3 f4 by (simp add: Let_def)
  show ?thesis
    by (rule conjI[OF len[THEN conjunct1] conjI[OF len[THEN conjunct2] conjI[OF steps narr]]])
qed


lemma example_resolvable:
  "filter (\<lambda>s. example_agents (step_agent s) \<noteq> None) (steps example_plan)
     = [mk_step ''KPICalculator'' ''summary'' [],
        mk_step ''ReportGenerator'' ''executive_summary'' []]"
  by (simp add: example_plan_def example_agents_def mk_step_def)

lemma example_process:
  "fst (process example_agents example_plan ''how are sales?'' []) =
     \<lparr>res_intent = ''example'',
      steps_executed =
        [\<lparr>led_agent = ''KPICalculator'', led_operation = ''summary'',
          success = False, row_count = 0\<rparr>,
         \<lparr>led_agent = ''ReportGenerator'', led_operation = ''executive_summary'',
          success = True, row_count = 0\<rparr>],
      outputs =
        [\<lparr>agent = ''KPICalculator'', out_operation = ''summary'', sql = Sql_literal [],
          data = None, summary = [], error = Some ''database is locked'', metadata = []\<rparr>,
         ok_output ''ReportGenerator'' ''executive_summary''],
      narrative = ''executive_summary done.'',
      res_suggested_followups = [],
      res_error = None\<rparr>"
  by (simp add: process_def example_plan_def example_agents_def mk_step_def run_guarded_def
        ledger_of_def build_narrative_def in_narrative_def ok_output_def Let_def)

theorem process_isolates_step_failures_witness:
  "length (outputs (fst (process example_agents example_plan ''how are sales?'' []))) = 2
   \<and> outputs (fst (process example_agents example_plan ''how are sales?'' [])) ! 0
       = \<lparr>agent = ''KPICalculator'', out_operation = ''summary'', sql = Sql_literal [],
          data = None, summary = [], error = Some ''database is locked'', metadata = []\<rparr>
   \<and> \<not> success (steps_executed (fst (process example_agents example_plan ''how are sales?'' [])) ! 0)
   \<and> outputs (fst (process example_agents example_plan ''how are sales?'' [])) ! 1
       = ok_output ''ReportGenerator'' ''executive_summary''
   \<and> success (steps_executed (fst (process example_agents example_plan ''how are sales?'' [])) ! 1)
   \<and> narrative (fst (process example_agents example_plan ''how are sales?'' []))
       = ''executive_summary done.''"
proof -
  let ?r = "fst (process example_agents example_plan ''how are sales?'' [])"
  let ?s0 = "mk_step ''KPICalculator'' ''summary'' []"
  let ?s1 = "mk_step ''ReportGenerator'' ''executive_summary'' []"
  have h: "\<forall>s \<in> set (filter (\<lambda>s. example_agents (step_agent s) \<noteq> None) (steps example_plan)).
      \<forall>out. the (example_agents (step_agent s))
               \<lparr>operation = step_operation s, parameters = step_parameters s,
                context = Some ''how are sales?''\<rparr> = Inr out
            \<longrightarrow> error out \<noteq> Some []"
    unfolding example_resolvable
    by (simp add: example_agents_def mk_step_def ok_output_def)
  note r = process_isolates_step_failures[OF h, of "[]", unfolded example_resolvable]
  have c1: "length (outputs ?r) = 2"
    using r[THEN conjunct1] by simp
  note per_step = r[THEN conjunct2, THEN conjunct2, THEN conjunct1, rule_format]
  have call0: "the (example_agents (step_agent ([?s0, ?s1] ! 0)))
      \<lparr>operation = step_operation ([?s0, ?s1] ! 0), parameters = step_parameters ([?s0, ?s1] ! 0),
       context = Some ''how are sales?''\<rparr> = Inl ''database is locked''"
    by (simp add: example_agents_def mk_step_def)
  have call1: "the (example_agents (step_agent ([?s0, ?s1] ! 1)))
      \<lparr>operation = step_operation ([?s0, ?s1] ! 1), parameters = step_parameters ([?s0, ?s1] ! 1),
       context = Some ''how are sales?''\<rparr> = Inr (ok_output ''ReportGenerator'' ''executive_summary'')"
    by (simp add: example_agents_def mk_step_def)
  have i0: "0 < length [?s0, ?s1]" and i1: "1 < length [?s0, ?s1]" by simp_all
  note f0 = per_step[OF i0, THEN conjunct1, rule_format, OF call0]
  note f1 = per_step[OF i1, THEN conjunct2, rule_format, OF call1]
  have c2: "outputs ?r ! 0
       = \<lparr>agent = ''KPICalculator'', out_operation = ''summary'', sql = Sql_literal [],
          data = None, summary = [], error = Some ''database is locked'', metadata = []\<rparr>"
    using f0[THEN conjunct1] by (simp add: mk_step_def)
  have c3: "\<not> success (steps_executed ?r ! 0)"
    using f0[THEN conjunct2, THEN conjunct1] .
  have c4: "outputs ?r ! 1 = ok_output ''ReportGenerator'' ''executive_summary''"
    using f1[THEN conjunct1] .
  have c5: "success (steps_executed ?r ! 1)"
    using f1[THEN conjunct2] by (simp add: ok_output_def)
  have c6: "narrative ?r = ''executive_summary done.''"
    by (simp add: example_process)
  show ?thesis
    by (rule conjI[OF c1 conjI[OF c2 conjI[OF c3 conjI[OF c4 conjI[OF c5 c6]]]]])
qed

subsection \<open>Rule-based planner\<close>

lemma sublist_trans': "sublist xs ys \<Longrightarrow> sublist ys zs \<Longrightarrow> sublist xs zs"
proof -
  assume "sublist xs ys" "sublist ys zs"
  then obtain p1 s1 p2 s2 where "ys = p1 @ xs @ s1" "zs = p2 @ ys @ s2"
    by (auto simp: sublist_def)
  then have "zs = (p2 @ p1) @ xs @ (s1 @ s2)" by simp
  then show ?thesis unfolding sublist_def by blast
qed

lemma sublist_map: "sublist xs ys \<Longrightarrow> sublist (map f xs) (map f ys)"
proof -
  assume "sublist xs ys"
  then obtain ps ss where "ys = ps @ xs @ ss" by (auto simp: sublist_def)
  then have "map f ys = map f ps @ map f xs @ map f ss" by simp
  then show ?thesis by (simp only: sublist_appendI)
qed

lemma lower_char_fixes_digit:
  assumes "is_decimal_char d"
  shows "lower_char c = d \<longleftrightarrow> c = d"
proof
  assume "c = d"
  with assms show "lower_char c = d"
    by (auto simp: lower_char_def is_decimal_char_def Let_def)
next
  assume l: "lower_char c = d"
  show "c = d"
  proof (rule ccontr)
    assume "c \<noteq> d"
    with l have up: "(65 \<le> (of_char c :: nat) \<and> (of_char c :: nat) \<le> 90)
        \<or> (192 \<le> (of_char c :: nat) \<and> (of_char c :: nat) \<le> 222 \<and> (of_char c :: nat) \<noteq> 215)"
      and d: "d = char_of ((of_char c :: nat) + 32)"
      by (auto simp: lower_char_def Let_def split: if_splits)
    from d have "(of_char d :: nat) = ((of_char c :: nat) + 32) mod 256"
      by simp
    with up have "(of_char d :: nat) = (of_char c :: nat) + 32" by auto
    with up assms show False by (auto simp: is_decimal_char_def Let_def)
  qed
qed

lemma map_lower_eq_digits:
  assumes "list_all is_decimal_char ds"
  shows "map lower_char xs = ds \<longleftrightarrow> xs = ds"
  using assms
proof (induction ds arbitrary: xs)
  case Nil
  then show ?case by simp
next
  case (Cons d ds)
  then show ?case
    by (cases xs) (auto simp: lower_char_fixes_digit)
qed

lemma sublist_digits_lower:
  assumes "list_all is_decimal_char ds"
  shows "sublist ds (py_lower s) \<longleftrightarrow> sublist ds s"
proof
  assume "sublist ds s"
  then have "sublist (map lower_char ds) (map lower_char s)" by (rule sublist_map)
  moreover have "map lower_char ds = ds"
    using map_lower_eq_digits[OF assms, of ds] by simp
  ultimately show "sublist ds (py_lower s)" by (simp add: py_lower_def)
next
  assume "sublist ds (py_lower s)"
  then obtain ps ss where e: "map lower_char s = ps @ ds @ ss"
    by (auto simp: sublist_def py_lower_def)
  from e have "\<exists>us vs. s = us @ vs \<and> ps = map lower_char us \<and> ds @ ss = map lower_char vs"
    by (simp only: map_eq_append_conv)
  then obtain s1 vs where s1: "s = s1 @ vs" and v: "ds @ ss = map lower_char vs"
    by blast
  from v[symmetric]
  have "\<exists>us ws. vs = us @ ws \<and> ds = map lower_char us \<and> ss = map lower_char ws"
    by (simp only: map_eq_append_conv)
  then obtain s2 s3 where s23: "vs = s2 @ s3" and m: "map lower_char s2 = ds"
    by auto
  from s1 s23 have s: "s = s1 @ s2 @ s3" by simp
  from m have "s2 = ds" using map_lower_eq_digits[OF assms] by simp
  with s show "sublist ds s" by (auto simp: sublist_def)
qed

lemma year_strings:
  "str_int 2022 = ''2022''" "str_int 2023 = ''2023''" "str_int 2024 = ''2024''"
  by code_simp+

lemma phrase_lower:
  "py_lower ''compare 2023 and 2024 by region'' = ''compare 2023 and 2024 by region''"
  by code_simp

lemma phrase_parts:
  "sublist ''compare'' ''compare 2023 and 2024 by region''"
  "sublist ''2023'' ''compare 2023 and 2024 by region''"
  "sublist ''2024'' ''compare 2023 and 2024 by region''"
  "sublist ''region'' ''compare 2023 and 2024 by region''"
  by code_simp+

lemma digits_2022: "list_all is_decimal_char ''2022''"
  by code_simp

lemma phrase_in_lowered:
  assumes "sublist ''compare 2023 and 2024 by region'' query"
  shows "sublist ''compare 2023 and 2024 by region'' (py_lower query)"
proof -
  have "sublist (map lower_char ''compare 2023 and 2024 by region'') (map lower_char query)"
    using assms by (rule sublist_map)
  then show ?thesis
    using phrase_lower by (simp only: py_lower_def)
qed

lemma plan_years_phrase:
  assumes "sublist ''compare 2023 and 2024 by region'' query" and "\<not> sublist ''2022'' query"
  shows "plan_years (py_lower query) = [2023, 2024]"
proof -
  note p = phrase_in_lowered[OF assms(1)]
  have a: "sublist ''2023'' (py_lower query)" "sublist ''2024'' (py_lower query)"
    using sublist_trans'[OF phrase_parts(2) p] sublist_trans'[OF phrase_parts(3) p] by simp_all
  have b: "\<not> sublist ''2022'' (py_lower query)"
    using assms(2) sublist_digits_lower[OF digits_2022] by simp
  show ?thesis
    using a b by (simp add: plan_years_def year_strings)
qed

lemma compare_branch:
  assumes "sublist ''compare'' q" and "sublist ''region'' q"
  shows "plan_branch q [2023, 2024] fs =
           Inr [mk_step ''KPICalculator'' ''compare_periods''
                  [(''period_a'', PDict [(''year'', PInt 2023)]),
                   (''period_b'', PDict [(''year'', PInt 2024)]),
                   (''group_by'', PStr ''region'')]]"
  using assms by (simp add: plan_branch_def py_min_def py_max_def)

lemma rule_based_plan_last:
  assumes "rule_based_plan query err = Inr plan"
  shows "steps plan \<noteq> [] \<and> last (steps plan) = executive_summary_step"
  using assms
  by (auto simp: rule_based_plan_def Let_def split: sum.splits)

lemma first_number_total:
  assumes "\<forall>w \<in> set ws. isdigit w \<longrightarrow> list_all is_decimal_char w \<and> length w \<le> 4300"
  shows "\<exists>n. first_number ws = Inr n"
  using assms by (induction ws) (auto simp: py_int_def)

lemma plan_branch_raises:
  assumes "plan_branch q years filters = Inl e"
  shows "first_number (py_split q) = Inl e"
proof (cases "first_number (py_split q)")
  case (Inl e')
  with assms show ?thesis
    unfolding plan_branch_def Let_def
    by (simp split: if_splits)
next
  case (Inr n)
  with assms show ?thesis
    unfolding plan_branch_def Let_def
    by (simp split: if_splits)
qed

lemma rule_based_plan_total:
  assumes "\<forall>w \<in> set (py_split (py_lower query)).
             isdigit w \<longrightarrow> list_all is_decimal_char w \<and> length w \<le> 4300"
  shows "\<exists>plan. rule_based_plan query err = Inr plan"
proof (cases "plan_branch (py_lower query) (plan_years (py_lower query)) (plan_filters (py_lower query))")
  case (Inl e)
  then have "first_number (py_split (py_lower query)) = Inl e"
    by (rule plan_branch_raises)
  with first_number_total[OF assms] show ?thesis by simp
next
  case (Inr ss)
  then show ?thesis
    by (simp add: rule_based_plan_def Let_def)
qed

text \<open>
  Claim C9, amended. For a text that contains "compare 2023 and 2024 by region" and does
  not contain "2022", the fallback planner returns a plan whose first step is
  \<open>compare_periods\<close> with \<open>period_a = {year: 2023}\<close>, \<open>period_b = {year: 2024}\<close> and
  \<open>group_by = "region"\<close>. Every plan that the fallback planner returns is non-empty and
  ends with the executive-summary step. It returns a plan for every text in which each
  whitespace-delimited word that \<open>isdigit\<close> accepts is made of decimal digits and has
  at most 4300 of them.
\<close>

theorem fallback_plan_shape:
  "(sublist ''compare 2023 and 2024 by region'' query \<and> \<not> sublist ''2022'' query \<longrightarrow>
      (\<exists>plan. rule_based_plan query err = Inr plan
         \<and> hd (steps plan) =
             mk_step ''KPICalculator'' ''compare_periods''
               [(''period_a'', PDict [(''year'', PInt 2023)]),
                (''period_b'', PDict [(''year'', PInt 2024)]),
                (''group_by'', PStr ''region'')]
         \<and> last (steps plan) = executive_summary_step))
   \<and> (\<forall>plan. rule_based_plan query err = Inr plan \<longrightarrow>
         steps plan \<noteq> [] \<and> last (steps plan) = executive_summary_step)
   \<and> ((\<forall>w \<in> set (py_split (py_lower query)).
          isdigit w \<longrightarrow> list_all is_decimal_char w \<and> length w \<le> 4300) \<longrightarrow>
       (\<exists>plan. rule_based_plan query err = Inr plan))"
proof -
  have a: "sublist ''compare 2023 and 2024 by region'' query \<and> \<not> sublist ''2022'' query \<longrightarrow>
      (\<exists>plan. rule_based_plan query err = Inr plan
         \<and> hd (steps plan) =
             mk_step ''KPICalculator'' ''compare_periods''
               [(''period_a'', PDict [(''year'', PInt 2023)]),
                (''period_b'', PDict [(''year'', PInt 2024)]),
                (''group_by'', PStr ''region'')]
         \<and> last (steps plan) = executive_summary_step)"
  proof
    assume h: "sublist ''compare 2023 and 2024 by region'' query \<and> \<not> sublist ''2022'' query"
    note p = phrase_in_lowered[OF h[THEN conjunct1]]
    have ys: "plan_years (py_lower query) = [2023, 2024]"
      using h by (intro plan_years_phrase) simp_all
    have br: "plan_branch (py_lower query) (plan_years (py_lower query))
                (plan_filters (py_lower query)) =
           Inr [mk_step ''KPICalculator'' ''compare_periods''
                  [(''period_a'', PDict [(''year'', PInt 2023)]),
                   (''period_b'', PDict [(''year'', PInt 2024)]),
                   (''group_by'', PStr ''region'')]]"
      unfolding ys
      by (rule compare_branch[OF sublist_trans'[OF phrase_parts(1) p]
            sublist_trans'[OF phrase_parts(4) p]])
    show "\<exists>plan. rule_based_plan query err = Inr plan
         \<and> hd (steps plan) =
             mk_step ''KPICalculator'' ''compare_periods''
               [(''period_a'', PDict [(''year'', PInt 2023)]),
                (''period_b'', PDict [(''year'', PInt 2024)]),
                (''group_by'', PStr ''region'')]
         \<and> last (steps plan) = executive_summary_step"
      by (simp add: rule_based_plan_def br Let_def)
  qed
  have b: "\<forall>plan. rule_based_plan query err = Inr plan \<longrightarrow>
         steps plan \<noteq> [] \<and> last (steps plan) = executive_summary_step"
    using rule_based_plan_last by blast
  have c: "(\<forall>w \<in> set (py_split (py_lower query)).
          isdigit w \<longrightarrow> list_all is_decimal_char w \<and> length w \<le> 4300) \<longrightarrow>
       (\<exists>plan. rule_based_plan query err = Inr plan)"
    by (rule impI) (erule rule_based_plan_total)
  show ?thesis
    by (rule conjI[OF a conjI[OF b c]])
qed

text \<open>
  Claim C9, as stated, fails: a text that contains the phrase and also mentions 2022
  gets \<open>period_a = {year: 2022}\<close>, the minimum of the years found in the text.
\<close>

theorem comparison_with_third_year_counterexample:
  "sublist ''compare 2023 and 2024 by region'' comparison_query_2022
   \<and> rule_based_plan comparison_query_2022 [] =
       Inr \<lparr>intent = ''Answering: '' @ [CHR 0x27] @ comparison_query_2022 @ [CHR 0x27],
            steps = [mk_step ''KPICalculator'' ''compare_periods''
                       [(''period_a'', PDict [(''year'', PInt 2022)]),
                        (''period_b'', PDict [(''year'', PInt 2024)]),
                        (''group_by'', PStr ''region'')],
                     executive_summary_step],
            always_include_report = True,
            suggested_followups =
              [''Which region has the highest growth?'',
               ''Show me the top 5 subcategories by profit'',
               ''Compare 2023 vs 2024 by category'']\<rparr>"
  unfolding comparison_query_2022_def by code_simp

lemma planner_raises_on_superscript_digit:
  "rule_based_plan superscript_query [] = Inl ''ValueError''"
  unfolding superscript_query_def by code_simp

theorem fallback_plan_shape_witness:
  "(\<exists>plan. rule_based_plan comparison_query [] = Inr plan
         \<and> hd (steps plan) =
             mk_step ''KPICalculator'' ''compare_periods''
               [(''period_a'', PDict [(''year'', PInt 2023)]),
                (''period_b'', PDict [(''year'', PInt 2024)]),
                (''group_by'', PStr ''region'')]
         \<and> steps plan \<noteq> []
         \<and> last (steps plan) = executive_summary_step)"
proof -
  have h1: "sublist ''compare 2023 and 2024 by region'' comparison_query
            \<and> \<not> sublist ''2022'' comparison_query"
    unfolding comparison_query_def by code_simp
  have h3: "\<forall>w \<in> set (py_split (py_lower comparison_query)).
          isdigit w \<longrightarrow> list_all is_decimal_char w \<and> length w \<le> 4300"
    unfolding comparison_query_def by code_simp
  note r = fallback_plan_shape[of comparison_query "[]"]
  from r[THEN conjunct2, THEN conjunct2] h3
  have "\<exists>plan. rule_based_plan comparison_query [] = Inr plan" by (rule mp)
  from r[THEN conjunct1] h1
  obtain plan where p: "rule_based_plan comparison_query [] = Inr plan"
    and hdp: "hd (steps plan) =
             mk_step ''KPICalculator'' ''compare_periods''
               [(''period_a'', PDict [(''year'', PInt 2023)]),
                (''period_b'', PDict [(''year'', PInt 2024)]),
                (''group_by'', PStr ''region'')]"
    by blast
  from r[THEN conjunct2, THEN conjunct1, rule_format, OF p]
  have "steps plan \<noteq> [] \<and> last (steps plan) = executive_summary_step" .
  with p hdp show ?thesis by blast
qed

subsection \<open>Year-over-year growth\<close>

lemma np_round_of_int:
  assumes "\<bar>k * 10 ^ nd\<bar> < 2 ^ 53"
  shows "np_round nd (real_of_int k) = real_of_int k"
proof -
  have "\<bar>k\<bar> * 1 \<le> \<bar>k\<bar> * 10 ^ nd" by (intro mult_left_mono) simp_all
  then have k: "\<bar>k\<bar> < 2 ^ 53" using assms by (simp add: abs_mult)
  have "real_of_int k * 10 ^ nd = real_of_int (k * 10 ^ nd)" by simp
  then have m: "fmul (real_of_int k) (10 ^ nd) = real_of_int (k * 10 ^ nd)"
    unfolding fmul_def using fl_of_int[OF assms] by simp
  have "real_of_int (k * 10 ^ nd) / 10 ^ nd = real_of_int k" by simp
  then show ?thesis
    unfolding np_round_def m round_half_even_of_int fdiv_def using fl_of_int[OF k] by simp
qed

lemma np_round_50: "np_round 2 50 = 50"
  using np_round_of_int[of 50 2] by simp

lemma np_round_m20: "np_round 2 (- 20) = - 20"
  using np_round_of_int[of "- 20" 2] by simp

lemma np_round_decimal:
  "\<exists>k. np_round nd x = fl (real_of_int k / 10 ^ nd)
      \<and> \<bar>real_of_int k - fl (x * 10 ^ nd)\<bar> \<le> 1 / 2"
proof (intro exI conjI)
  show "np_round nd x = fl (real_of_int (round_half_even (fl (x * 10 ^ nd))) / 10 ^ nd)"
    by (simp add: np_round_def fdiv_def fmul_def)
  show "\<bar>real_of_int (round_half_even (fl (x * 10 ^ nd))) - fl (x * 10 ^ nd)\<bar> \<le> 1 / 2"
    using round_half_even_bounds[of "fl (x * 10 ^ nd)"] by linarith
qed

lemma growth_150: "fmul (fdiv (fsub 150 100) 100) 100 = 50"
  by (simp add: fsub_def fdiv_def fmul_def fl_numeral fl_half)

lemma growth_120: "fmul (fdiv (fsub 120 150) 150) 100 = - 20"
proof -
  have "fmul (fdiv (fsub 120 150) 150) 100
          = fl (- (3602879701896397 / 18014398509481984) * 100)"
    by (simp add: fsub_def fdiv_def fmul_def fl_neg_numeral fl_m15)
  also have "\<dots> = - 20"
    by (subst fl_scaled[where n = 48]) (simp_all add: round_half_even_def)
  finally show ?thesis .
qed

lemma growth_803:
  "fmul (fdiv (fsub (fl (803 / 100)) 8) 8) 100 = 422212465065975 / 1125899906842624"
proof -
  have a: "fsub (fl (803 / 100)) 8 = 16888498602639 / 562949953421312"
    unfolding fsub_def fl_803
    using fl_dyadic[of "16888498602639 / 562949953421312" 49 16888498602639] by simp
  have b: "fdiv (16888498602639 / 562949953421312) 8 = 16888498602639 / 4503599627370496"
    unfolding fdiv_def
    using fl_dyadic[of "16888498602639 / 4503599627370496" 52 16888498602639] by simp
  have c: "fmul (16888498602639 / 4503599627370496) 100 = 422212465065975 / 1125899906842624"
    unfolding fmul_def
    using fl_dyadic[of "422212465065975 / 1125899906842624" 50 422212465065975] by simp
  show ?thesis unfolding a b c ..
qed

lemma np_round_growth_803:
  "np_round 2 (422212465065975 / 1125899906842624) = fl (37 / 100)"
proof -
  have "fmul (422212465065975 / 1125899906842624) (10 ^ 2)
          = fl (10555311626649375 / 281474976710656)"
    by (simp add: fmul_def)
  also have "\<dots> = 329853488332793 / 8796093022208"
    by (subst fl_scaled[where n = 47]) (simp_all add: round_half_even_def)
  finally have m: "fmul (422212465065975 / 1125899906842624) (10 ^ 2)
                     = 329853488332793 / 8796093022208" .
  have r: "round_half_even (329853488332793 / 8796093022208) = 37"
    by (simp add: round_half_even_def)
  show ?thesis
    unfolding np_round_def m r fdiv_def by simp
qed

lemma growth_records_length: "length (growth_records lab grp) = length grp"
  by (simp add: growth_records_def)

lemma growth_at_formula:
  "growth_at grp i =
     (if i = 0 then None
      else if total_revenue (grp ! (i - 1)) = 0 then None
      else Some (np_round 2 (fmul (fdiv (fsub (total_revenue (grp ! i))
                                               (total_revenue (grp ! (i - 1))))
                                         (total_revenue (grp ! (i - 1)))) 100)))"
  by (simp add: growth_at_def)

lemma growth_records_nth:
  assumes "i < length grp"
  shows "growth_records lab grp ! i =
           \<lparr>rec_dimension = lab, rec_year = year (grp ! i),
            rec_total_revenue = total_revenue (grp ! i),
            yoy_growth_pct = growth_at grp i\<rparr>"
  using assms by (simp add: growth_records_def)

lemma growth_records_dimension:
  "r \<in> set (growth_records lab grp) \<Longrightarrow> rec_dimension r = lab"
  by (auto simp: growth_records_def)

lemma filter_concat_blocks:
  assumes "distinct ks" and "\<And>k x. x \<in> set (f k) \<Longrightarrow> key x = Some k"
  shows "filter (\<lambda>x. key x = Some l) (concat (map f ks)) = (if l \<in> set ks then f l else [])"
  using assms(1)
proof (induction ks)
  case Nil
  then show ?case by simp
next
  case (Cons k ks)
  have keep: "filter (\<lambda>x. key x = Some l) (f l) = f l"
    by (rule filter_True) (simp add: assms(2))
  have drop: "filter (\<lambda>x. key x = Some l) (f k) = []" if "k \<noteq> l"
    using that assms(2)[of _ k] by (auto simp: filter_empty_conv)
  show ?case
  proof (cases "k = l")
    case True
    with Cons have "l \<notin> set ks" by simp
    with Cons True keep show ?thesis by simp
  next
    case False
    with Cons drop show ?thesis by auto
  qed
qed

lemma set_group_keys:
  "set (group_keys raw) = {l. \<exists>r \<in> set raw. dim_label r = Some l}"
  by (auto simp: group_keys_def List.map_filter_def image_iff) force

lemma distinct_group_keys: "distinct (group_keys raw)"
  by (simp add: group_keys_def)

lemma group_rows_absent:
  "l \<notin> set (group_keys raw) \<Longrightarrow> group_rows raw l = []"
  by (auto simp: set_group_keys group_rows_def filter_empty_conv)

lemma partition_records:
  assumes "has_dim_label raw"
  shows "filter (\<lambda>r. rec_dimension r = Some l) (yoy_growth_records raw)
           = growth_records (Some l) (sort_key year (group_rows raw l))"
proof -
  let ?f = "\<lambda>label. growth_records (Some label) (sort_key year (group_rows raw label))"
  have "filter (\<lambda>r. rec_dimension r = Some l) (concat (map ?f (group_keys raw)))
          = (if l \<in> set (group_keys raw) then ?f l else [])"
    by (rule filter_concat_blocks[OF distinct_group_keys]) (rule growth_records_dimension)
  moreover have "?f l = []" if "l \<notin> set (group_keys raw)"
    using group_rows_absent[OF that] by (simp add: growth_records_def)
  ultimately show ?thesis
    using assms by (simp add: yoy_growth_records_def)
qed

text \<open>
  Claim C6. Without a dimension the growth records are those of the whole series in
  year order. With a dimension, the records of a label \<open>l\<close> are exactly the growth
  records of the rows of \<open>l\<close> in year order: every partition is processed on its
  own and starts again without a previous value. In a series \<open>grp\<close>, the record at
  position \<open>i\<close> keeps year and revenue of row \<open>i\<close>; its growth is absent at the
  first position and after a previous revenue of zero, and otherwise it is
  (current - previous) / previous * 100, computed in floating point, rounded to two
  decimals: the float nearest to \<open>k / 100\<close> for an integer \<open>k\<close> that is within one
  half of the hundredfold of the float quotient. The yearly revenues 100, 150, 120
  give the growth values absent, 50 and -20; the revenues 8 and 8.03 give absent and
  0.37, the float \<open>3332663724254167 / 2 ^ 53\<close>.
\<close>

theorem yoy_growth_values:
  fixes raw grp :: "('l::linorder) raw_row list"
  shows
  "(\<not> has_dim_label raw \<longrightarrow>
      yoy_growth_records raw = growth_records None (sort_key year raw))
   \<and> (has_dim_label raw \<longrightarrow>
      filter (\<lambda>r. rec_dimension r = Some l) (yoy_growth_records raw)
        = growth_records (Some l) (sort_key year (group_rows raw l)))
   \<and> length (growth_records lab grp) = length grp
   \<and> (\<forall>i < length grp.
        rec_dimension (growth_records lab grp ! i) = lab
      \<and> rec_year (growth_records lab grp ! i) = year (grp ! i)
      \<and> rec_total_revenue (growth_records lab grp ! i) = total_revenue (grp ! i)
      \<and> yoy_growth_pct (growth_records lab grp ! i) =
          (if i = 0 then None
           else if total_revenue (grp ! (i - 1)) = 0 then None
           else Some (np_round 2 (fmul (fdiv (fsub (total_revenue (grp ! i))
                                                   (total_revenue (grp ! (i - 1))))
                                             (total_revenue (grp ! (i - 1)))) 100))))
   \<and> (\<exists>k. np_round 2 g = fl (real_of_int k / 100)
          \<and> \<bar>real_of_int k - fl (g * 100)\<bar> \<le> 1 / 2)
   \<and> map yoy_growth_pct (yoy_growth_records yoy_example) = [None, Some 50, Some (- 20)]
   \<and> map yoy_growth_pct (yoy_growth_records yoy_rounding_example)
       = [None, Some (fl (37 / 100))]
   \<and> fl (37 / 100) = 3332663724254167 / 2 ^ 53"
proof -
  have a: "\<not> has_dim_label raw \<longrightarrow>
      yoy_growth_records raw = growth_records None (sort_key year raw)"
    by (simp add: yoy_growth_records_def)
  have b: "has_dim_label raw \<longrightarrow>
      filter (\<lambda>r. rec_dimension r = Some l) (yoy_growth_records raw)
        = growth_records (Some l) (sort_key year (group_rows raw l))"
    by (rule impI) (erule partition_records)
  have c: "length (growth_records lab grp) = length grp"
    by (rule growth_records_length)
  have d: "\<forall>i < length grp.
        rec_dimension (growth_records lab grp ! i) = lab
      \<and> rec_year (growth_records lab grp ! i) = year (grp ! i)
      \<and> rec_total_revenue (growth_records lab grp ! i) = total_revenue (grp ! i)
      \<and> yoy_growth_pct (growth_records lab grp ! i) =
          (if i = 0 then None
           else if total_revenue (grp ! (i - 1)) = 0 then None
           else Some (np_round 2 (fmul (fdiv (fsub (total_revenue (grp ! i))
                                                   (total_revenue (grp ! (i - 1))))
                                             (total_revenue (grp ! (i - 1)))) 100)))"
  proof (intro allI impI)
    fix i assume i: "i < length grp"
    show "rec_dimension (growth_records lab grp ! i) = lab
      \<and> rec_year (growth_records lab grp ! i) = year (grp ! i)
      \<and> rec_total_revenue (growth_records lab grp ! i) = total_revenue (grp ! i)
      \<and> yoy_growth_pct (growth_records lab grp ! i) =
          (if i = 0 then None
           else if total_revenue (grp ! (i - 1)) = 0 then None
           else Some (np_round 2 (fmul (fdiv (fsub (total_revenue (grp ! i))
                                                   (total_revenue (grp ! (i - 1))))
                                             (total_revenue (grp ! (i - 1)))) 100)))"
      unfolding growth_records_nth[OF i] growth_at_formula[symmetric] by simp
  qed
  have r: "\<exists>k. np_round 2 g = fl (real_of_int k / 100)
          \<and> \<bar>real_of_int k - fl (g * 100)\<bar> \<le> 1 / 2"
    using np_round_decimal[of 2 g] by simp
  have e: "map yoy_growth_pct (yoy_growth_records yoy_example) = [None, Some 50, Some (- 20)]"
    by (simp add: yoy_example_def yoy_growth_records_def has_dim_label_def growth_records_def
        growth_at_def growth_150 growth_120 np_round_50 np_round_m20 upt_rec)
  have f: "map yoy_growth_pct (yoy_growth_records yoy_rounding_example)
       = [None, Some (fl (37 / 100))]"
    by (simp add: yoy_rounding_example_def yoy_growth_records_def has_dim_label_def
        growth_records_def growth_at_def growth_803 np_round_growth_803 upt_rec
        fl_eq_0_iff)
  have v: "fl (37 / 100) = 3332663724254167 / 2 ^ 53"
    unfolding fl_37 by simp
  show ?thesis
    by (rule conjI[OF a conjI[OF b conjI[OF c conjI[OF d conjI[OF r conjI[OF e
          conjI[OF f v]]]]]]])
qed

lemma labelled_has_label: "has_dim_label yoy_labelled_example"
  by (simp add: yoy_labelled_example_def has_dim_label_def)

lemma unlabelled_has_no_label: "\<not> has_dim_label yoy_example"
  by (simp add: yoy_example_def has_dim_label_def)

lemma europe_rows:
  "sort_key year (group_rows yoy_labelled_example ''Europe'')
     = [\<lparr>dim_label = Some ''Europe'', year = 2023, total_revenue = 0\<rparr>,
        \<lparr>dim_label = Some ''Europe'', year = 2024, total_revenue = 80\<rparr>]"
  by (simp add: yoy_labelled_example_def group_rows_def)

theorem yoy_growth_values_witness:
  "yoy_growth_records yoy_example = growth_records None (sort_key year yoy_example)
   \<and> filter (\<lambda>r. rec_dimension r = Some ''Europe'') (yoy_growth_records yoy_labelled_example)
       = growth_records (Some ''Europe'')
           [\<lparr>dim_label = Some ''Europe'', year = 2023, total_revenue = 0\<rparr>,
            \<lparr>dim_label = Some ''Europe'', year = 2024, total_revenue = 80\<rparr>]
   \<and> yoy_growth_pct (growth_records None yoy_example ! 1) = Some 50
   \<and> map yoy_growth_pct (growth_records (Some ''Europe'')
           [\<lparr>dim_label = Some ''Europe'', year = 2023, total_revenue = 0\<rparr>,
            \<lparr>dim_label = Some ''Europe'', year = 2024, total_revenue = 80\<rparr>]) = [None, None]"
proof -
  note r1 = yoy_growth_values[where raw = yoy_example and lab = None and grp = yoy_example]
  note r2 = yoy_growth_values[where raw = yoy_labelled_example and l = "''Europe''"]
  have c1: "yoy_growth_records yoy_example = growth_records None (sort_key year yoy_example)"
    using r1[THEN conjunct1] unlabelled_has_no_label by (rule mp)
  have "filter (\<lambda>r. rec_dimension r = Some ''Europe'') (yoy_growth_records yoy_labelled_example)
       = growth_records (Some ''Europe'')
           (sort_key year (group_rows yoy_labelled_example ''Europe''))"
    using r2[THEN conjunct2, THEN conjunct1] labelled_has_label by (rule mp)
  then have c2: "filter (\<lambda>r. rec_dimension r = Some ''Europe'') (yoy_growth_records yoy_labelled_example)
       = growth_records (Some ''Europe'')
           [\<lparr>dim_label = Some ''Europe'', year = 2023, total_revenue = 0\<rparr>,
            \<lparr>dim_label = Some ''Europe'', year = 2024, total_revenue = 80\<rparr>]"
    unfolding europe_rows .
  have i: "(1::nat) < length yoy_example" by (simp add: yoy_example_def)
  have "yoy_growth_pct (growth_records None yoy_example ! 1) =
          (if (1::nat) = 0 then None
           else if total_revenue (yoy_example ! (1 - 1)) = 0 then None
           else Some (np_round 2 (fmul (fdiv (fsub (total_revenue (yoy_example ! 1))
                                                   (total_revenue (yoy_example ! (1 - 1))))
                                             (total_revenue (yoy_example ! (1 - 1)))) 100)))"
    using r1[THEN conjunct2, THEN conjunct2, THEN conjunct2, THEN conjunct1, rule_format, OF i]
    by (elim conjE)
  then have c3: "yoy_growth_pct (growth_records None yoy_example ! 1) = Some 50"
    by (simp add: yoy_example_def growth_150 np_round_50)
  have c4: "map yoy_growth_pct (growth_records (Some ''Europe'')
           [\<lparr>dim_label = Some ''Europe'', year = 2023, total_revenue = 0\<rparr>,
            \<lparr>dim_label = Some ''Europe'', year = 2024, total_revenue = 80\<rparr>]) = [None, None]"
    by (simp add: growth_records_def growth_at_def upt_rec)
  show ?thesis
    by (rule conjI[OF c1 conjI[OF c2 conjI[OF c3 c4]]])
qed

subsection \<open>Period comparison\<close>

lemma py_round_of_int:
  assumes "\<bar>k\<bar> < 2 ^ 53"
  shows "py_round nd (real_of_int k) = real_of_int k"
proof -
  have "real_of_int k * 10 ^ nd = real_of_int (k * 10 ^ nd)" by simp
  then have "round_half_even (real_of_int k * 10 ^ nd) = k * 10 ^ nd"
    by (simp only: round_half_even_of_int)
  then show ?thesis
    using fl_of_int[OF assms] by (simp add: py_round_def)
qed

lemma merge_row_zero_base: "revenue a = 0 \<Longrightarrow> revenue_change_pct (merge_row a b) = PNaN"
  by (simp add: merge_row_def)

lemma grouped_zero_base_is_nan:
  assumes "compare_frames g df_a df_b = Inr (Grouped rows)"
    and "m \<in> set rows" and "revenue_a m = 0"
  shows "revenue_change_pct m = PNaN"
proof -
  from assms(1) have "rows = concat (map (\<lambda>a. map (merge_row a)
                      (filter (\<lambda>b. dimension b = dimension a) df_b)) df_a)"
    by (auto simp: compare_frames_def split: if_splits)
  with assms(2) obtain a b where "m = merge_row a b" by auto
  with assms(3) show ?thesis by (simp add: merge_row_def)
qed

lemma ungrouped_zero_base_is_zero:
  assumes "df_a = [] \<or> revenue (hd df_a) = 0"
  shows "change_pct (ungrouped_compare df_a df_b) = PInt 0"
  using assms by (auto simp: ungrouped_compare_def Let_def)

text \<open>
  Claim C2. A comparison grouped by region in which period A has no rows takes the
  ungrouped branch, since the empty frame has no \<open>dimension\<close> column: its base
  revenue is 0 and the percentage delta is the integer 0. The same holds for an
  ungrouped comparison whose period A revenue is 0. In the grouped branch a zero base
  gives NaN, the missing value.
\<close>

theorem ungrouped_zero_base_yields_zero:
  "compare_frames (Some ''region'') []
       [\<lparr>dimension = Some ''Europe'', revenue = 500, profit = 50, quantity = 5\<rparr>]
     = Inr (Ungrouped \<lparr>u_revenue_a = 0, u_revenue_b = 500, change = 500, change_pct = PInt 0\<rparr>)
   \<and> compare_frames None
       [\<lparr>dimension = (None :: string option), revenue = 0, profit = 0, quantity = 0\<rparr>]
       [\<lparr>dimension = None, revenue = 500, profit = 50, quantity = 5\<rparr>]
     = Inr (Ungrouped \<lparr>u_revenue_a = 0, u_revenue_b = 500, change = 500, change_pct = PInt 0\<rparr>)
   \<and> compare_frames (Some ''region'')
       [\<lparr>dimension = Some ''Europe'', revenue = 0, profit = 0, quantity = 0\<rparr>]
       [\<lparr>dimension = Some ''Europe'', revenue = 500, profit = 50, quantity = 5\<rparr>]
     = Inr (Grouped [\<lparr>m_dimension = Some ''Europe'', revenue_a = 0, revenue_b = 500,
                      revenue_change = 500, revenue_change_pct = PNaN\<rparr>])"
proof -
  have s: "fsub 500 0 = 500"
    by (simp add: fsub_def fl_numeral)
  have r: "py_round 2 500 = 500"
    using py_round_of_int[of 500 2] by simp
  have n: "np_round 2 500 = 500"
    using np_round_of_int[of 500 2] by simp
  show ?thesis
    by (simp add: compare_frames_def has_dimension_def ungrouped_compare_def merge_row_def
          s r n)
qed

subsection \<open>Monthly anomalies\<close>




lemma z_score_regular:
  assumes "xs \<noteq> []" and "series_std fsum xs = Fin s" and "s \<noteq> 0"
  shows "z_score_of fsum xs x =
           Fin (np_round 3 (fl (fl (x - fl (fsum xs / real (length xs))) / s)))"
  using assms
  by (simp add: z_score_of_def series_mean_def float_sub_def float_div_def float_round_def
        fdiv_def fsub_def)



























text \<open>
  A constant series need not have a computed deviation of zero. For three months of
  0.1 the sum is rounded, the computed mean is the next float above 0.1, the computed
  deviation is about \<open>1.7e-17\<close>, and every stored z-score is -0.816.
\<close>

lemma tenths_avg:
  "fdiv (seq_sum tenths) 3 = 7205759403792795 / 72057594037927936"
proof -
  have a: "fl (3602879701896397 / 36028797018963968) = 3602879701896397 / 36028797018963968"
    using fl_dyadic[of "3602879701896397 / 36028797018963968" 55 3602879701896397] by simp
  have b: "fl (3602879701896397 / 18014398509481984) = 3602879701896397 / 18014398509481984"
    using fl_dyadic[of "3602879701896397 / 18014398509481984" 54 3602879701896397] by simp
  have c: "fl (10808639105689191 / 36028797018963968) = 1351079888211149 / 4503599627370496"
    by (subst fl_scaled[where n = 54]) (simp_all add: round_half_even_def)
  have s: "seq_sum tenths = 1351079888211149 / 4503599627370496"
    by (simp add: tenths_def fl_tenth seq_sum_def fadd_def a b c)
  have d: "fl (1351079888211149 / 13510798882111488) = 7205759403792795 / 72057594037927936"
    by (subst fl_scaled[where n = 56]) (simp_all add: round_half_even_def)
  show ?thesis
    unfolding s fdiv_def using d by simp
qed

lemma tenths_sqr:
  "map (\<lambda>x. fmul (fsub (7205759403792795 / 72057594037927936) x)
                  (fsub (7205759403792795 / 72057594037927936) x)) tenths
     = [1 / 2 ^ 112, 1 / 2 ^ 112, 1 / 2 ^ 112]"
proof -
  have d: "fsub (7205759403792795 / 72057594037927936) (fl (1 / 10)) = 1 / 2 ^ 56"
    unfolding fsub_def fl_tenth using fl_dyadic[of "1 / 2 ^ 56" 56 1] by simp
  have q: "fmul (1 / 2 ^ 56) (1 / 2 ^ 56) = 1 / 2 ^ 112"
    unfolding fmul_def using fl_dyadic[of "1 / 2 ^ 112" 112 1] by simp
  show ?thesis
    unfolding tenths_def by (simp only: list.map d q)
qed

lemma tenths_var: "series_var seq_sum tenths = Fin (3 / 2 ^ 113)"
proof -
  have len: "length tenths = 3" by (simp add: tenths_def)
  define q :: real where "q = 1 / 2 ^ 112"
  have a: "fl q = q"
    using fl_dyadic[of q 112 1] by (simp add: q_def)
  have b: "fl (2 * q) = 2 * q"
    using fl_dyadic[of "2 * q" 111 1] by (simp add: q_def)
  have c: "fl (3 * q) = 3 * q"
    using fl_dyadic[of "3 * q" 112 3] by (simp add: q_def)
  have d: "fl (3 * q / 2) = 3 / 2 ^ 113"
    using fl_dyadic[of "3 * q / 2" 113 3] by (simp add: q_def)
  have s: "seq_sum [q, q, q] = 3 * q"
    by (simp add: seq_sum_def fadd_def a b c)
  have "series_var seq_sum tenths
          = Fin (fdiv (seq_sum (map (\<lambda>x. fmul (fsub (7205759403792795 / 72057594037927936) x)
                  (fsub (7205759403792795 / 72057594037927936) x)) tenths)) 2)"
    by (simp add: series_var_def Let_def tenths_avg len)
  also have "\<dots> = Fin (fdiv (seq_sum [q, q, q]) 2)"
    by (simp only: tenths_sqr q_def)
  also have "\<dots> = Fin (3 / 2 ^ 113)"
    by (simp only: s fdiv_def d)
  finally show ?thesis .
qed

lemma tenths_std_bounds:
  "\<exists>s. series_std seq_sum tenths = Fin s
      \<and> 2449488 / (10 ^ 6 * 2 ^ 57) < s \<and> s < 2449491 / (10 ^ 6 * 2 ^ 57)"
proof -
  define r :: real where "r = sqrt (3 / 2 ^ 113)"
  have lo: "2449489 / (10 ^ 6 * 2 ^ 57) < r"
    unfolding r_def by (rule real_less_rsqrt) (simp add: power2_eq_square)
  have hi: "r < 2449490 / (10 ^ 6 * 2 ^ 57)"
    unfolding r_def by (rule real_less_lsqrt) (simp_all add: power2_eq_square)
  have pos: "0 < r" using lo by simp
  have e: "\<bar>fl r - r\<bar> \<le> r / 9007199254740992"
    using fl_error[of r] pos by simp
  have e1: "r - r / 9007199254740992 \<le> fl r" and e2: "fl r \<le> r + r / 9007199254740992"
    using e by (simp_all only: abs_le_iff) linarith+
  have lo1: "2449489 / 144115188075855872000000 < r" using lo by simp
  have hi1: "r < 2449490 / 144115188075855872000000" using hi by simp
  have "2449488 / 144115188075855872000000 < fl r" using e1 lo1 by linarith
  then have "2449488 / (10 ^ 6 * 2 ^ 57) < fl r" by simp
  moreover have "fl r < 2449491 / 144115188075855872000000" using e2 hi1 by linarith
  then have "fl r < 2449491 / (10 ^ 6 * 2 ^ 57)" by simp
  moreover have "series_std seq_sum tenths = Fin (fl r)"
    by (simp add: series_std_def tenths_var r_def)
  ultimately show ?thesis by blast
qed

lemma tenths_z:
  "z_score_of seq_sum tenths (fl (1 / 10)) = Fin (fl (- (102 / 125)))"
proof -
  from tenths_std_bounds obtain s where s: "series_std seq_sum tenths = Fin s"
    and lo: "2449488 / (10 ^ 6 * 2 ^ 57) < s" and hi: "s < 2449491 / (10 ^ 6 * 2 ^ 57)"
    by blast
  have pos: "0 < s" using lo by simp
  then have nz: "s \<noteq> 0" by simp
  have ne: "tenths \<noteq> []" by (simp add: tenths_def)
  have len: "real (length tenths) = 3" by (simp add: tenths_def)
  have m: "fl (seq_sum tenths / real (length tenths)) = 7205759403792795 / 72057594037927936"
    unfolding len using tenths_avg by (simp add: fdiv_def)
  have d: "fl (fl (1 / 10) - 7205759403792795 / 72057594037927936) = - (1 / 2 ^ 56)"
    unfolding fl_tenth using fl_dyadic[of "- (1 / 2 ^ 56)" 56 "- 1"] by simp
  define c :: real where "c = 1 / 2 ^ 56"
  define t where "t = - (c / s)"
  have cpos: "0 < c" by (simp add: c_def)
  have lo': "2449488 / 2000000 * c < s" using lo by (simp add: c_def)
  have hi': "s < 2449491 / 2000000 * c" using hi by (simp add: c_def)
  have z: "z_score_of seq_sum tenths (fl (1 / 10)) = Fin (np_round 3 (fl t))"
    unfolding z_score_regular[OF ne s nz] m d t_def c_def by simp
  have "816495 / 1000000 * s < c" using hi' cpos by linarith
  then have "816495 / 1000000 < c / s"
    using pos by (simp only: pos_less_divide_eq)
  then have t_hi: "t < - (816495 / 1000000)" by (simp add: t_def)
  have "c < 816498 / 1000000 * s" using lo' cpos by linarith
  then have "c / s < 816498 / 1000000"
    using pos by (simp only: pos_divide_less_eq)
  then have t_lo: "- (816498 / 1000000) < t" by (simp add: t_def)
  have "\<bar>fl t - t\<bar> \<le> \<bar>t\<bar> / 2 ^ 53" by (rule fl_error)
  with t_lo t_hi have q: "- (816499 / 1000000) < fl t" "fl t < - (816494 / 1000000)"
    by simp_all
  have "\<bar>fl (fl t * 1000) - fl t * 1000\<bar> \<le> \<bar>fl t * 1000\<bar> / 2 ^ 53" by (rule fl_error)
  with q have p: "real_of_int (- 816) - 1 / 2 < fl (fl t * 1000)"
    "fl (fl t * 1000) < real_of_int (- 816) + 1 / 2"
    by simp_all
  have r: "round_half_even (fl (fl t * 1000)) = - 816"
    by (rule round_half_even_unique[OF p])
  have "np_round 3 (fl t) = fl (- (102 / 125))"
    by (simp add: np_round_def fmul_def fdiv_def r)
  with z show ?thesis by simp
qed

lemma tenths_rows:
  "monthly_anomaly seq_sum tenths =
     Inr [\<lparr>monthly_revenue = fl (1 / 10), z_score = Fin (fl (- (102 / 125))),
           anomaly = False, anomaly_type = ''Normal''\<rparr>,
          \<lparr>monthly_revenue = fl (1 / 10), z_score = Fin (fl (- (102 / 125))),
           anomaly = False, anomaly_type = ''Normal''\<rparr>,
          \<lparr>monthly_revenue = fl (1 / 10), z_score = Fin (fl (- (102 / 125))),
           anomaly = False, anomaly_type = ''Normal''\<rparr>]"
proof -
  define w where "w = fl (- (102 / 125))"
  have "\<bar>w - (- (102 / 125))\<bar> \<le> \<bar>- (102 / 125)\<bar> / 2 ^ 53"
    unfolding w_def by (rule fl_error)
  then have "\<bar>w + 102 / 125\<bar> \<le> 1" by simp
  then have w: "\<not> 2 < \<bar>w\<bar>" "\<not> 2 < w" "\<not> w < - 2" by linarith+
  have z: "z_score_of seq_sum tenths (fl (1 / 10)) = Fin w"
    unfolding w_def by (rule tenths_z)
  have "monthly_anomaly seq_sum tenths =
     Inr [\<lparr>monthly_revenue = fl (1 / 10), z_score = Fin w,
           anomaly = False, anomaly_type = ''Normal''\<rparr>,
          \<lparr>monthly_revenue = fl (1 / 10), z_score = Fin w,
           anomaly = False, anomaly_type = ''Normal''\<rparr>,
          \<lparr>monthly_revenue = fl (1 / 10), z_score = Fin w,
           anomaly = False, anomaly_type = ''Normal''\<rparr>]"
    by (simp add: monthly_anomaly_def Let_def tenths_def z[unfolded tenths_def]
          float_gt_def float_lt_def float_abs_def anomaly_type_of_def w)
  then show ?thesis unfolding w_def .
qed



end
